theory Spec2Isabelle
  imports Complex_Main "HOL-Library.AList" "HOL-Library.Monad_Syntax"
begin

section \<open>Values, dictionaries and responses\<close>

text \<open>
  The server of \<^verbatim>\<open>src/server.py\<close> keeps \<^verbatim>\<open>self.collections\<close>, a Python
  dictionary from collection names to dictionaries from keys to values. The objects that
  travel through it are modelled by \<open>pyval\<close>: integers, text, the two kinds of number that
  the table \<^verbatim>\<open>types\<close> of \<^verbatim>\<open>_parse_value_to_type\<close> can also produce (\<^verbatim>\<open>float\<close>,
  \<^verbatim>\<open>complex\<close>), and lists, which stand for the unhashable objects a client may send as
  a key.

  A floating-point number is given by its exact value: a rational number, an infinity, or
  a NaN. Nothing is computed with these numbers, they are only compared. A NaN is equal
  to nothing, itself included, so that two NaN objects can be told apart only as objects:
  \<open>NaN i\<close> is the NaN object number \<open>i\<close>. Every request is unpickled into
  objects of its own, so the NaN of one request is never the NaN object of another.

  A \<open>char\<close> stands for a code point below 256. Every keyword of the query language is
  ASCII.
\<close>

datatype pyfloat = Finite rat | PosInf | NegInf | NaN nat

datatype pyval =
    PInt int
  | PStr string
  | PFloat pyfloat
  | PComplex pyfloat pyfloat
  | PList "pyval list"

datatype py_error = KeyError | TypeError | ValueError | AttributeError | ParseException

text \<open>Only lists are unhashable among the modelled objects.\<close>

fun hashable :: "pyval \<Rightarrow> bool" where
  "hashable (PList xs) = False"
| "hashable v = True"

subsection \<open>The key test of a dictionary\<close>

text \<open>
  A dictionary takes a key for a stored key when the two are the same object, or have
  equal hashes and are equal under \<^verbatim>\<open>==\<close>. Numbers are equal when their exact values
  are, whatever their types (\<^verbatim>\<open>1234 == 1234.0 == complex(1234, 0)\<close>, with equal
  hashes); text is equal to the same text only; a number with a NaN in it is equal to
  nothing. \<open>key_value\<close> is the value that \<^verbatim>\<open>==\<close> compares, where there is one.
\<close>

fun is_nan :: "pyfloat \<Rightarrow> bool" where
  "is_nan (NaN i) = True"
| "is_nan x = False"

datatype eq_value = KNum pyfloat pyfloat | KStr string

fun key_value :: "pyval \<Rightarrow> eq_value option" where
  "key_value (PInt a) = Some (KNum (Finite (of_int a)) (Finite 0))"
| "key_value (PStr s) = Some (KStr s)"
| "key_value (PFloat x) = (if is_nan x then None else Some (KNum x (Finite 0)))"
| "key_value (PComplex re im) =
     (if is_nan re \<or> is_nan im then None else Some (KNum re im))"
| "key_value (PList xs) = None"

text \<open>\<^verbatim>\<open>a == b\<close> on hashable objects.\<close>

definition py_eq :: "pyval \<Rightarrow> pyval \<Rightarrow> bool" where
  "py_eq a b = (case key_value a of None \<Rightarrow> False | Some ka \<Rightarrow> key_value b = Some ka)"

text \<open>The key test: the same object, or equal.\<close>

definition same_key :: "pyval \<Rightarrow> pyval \<Rightarrow> bool" where
  "same_key a b \<longleftrightarrow> a = b \<or> py_eq a b"

subsection \<open>Dictionaries\<close>

text \<open>
  A Python \<^verbatim>\<open>dict\<close> keeps its entries in insertion order. Assigning to a key that the
  dictionary takes for a stored key replaces the value and keeps the stored key and its
  place; a new key goes to the end.
\<close>

type_synonym collection = "(pyval \<times> pyval) list"
type_synonym database = "(string \<times> collection) list"

text \<open>The entry that a dictionary finds for a key.\<close>

definition dict_find :: "(pyval \<times> 'v) list \<Rightarrow> pyval \<Rightarrow> (pyval \<times> 'v) option" where
  "dict_find d k = find (\<lambda>entry. same_key (fst entry) k) d"

text \<open>The value that a dictionary holds for a key, if any.\<close>

definition dict_lookup :: "(pyval \<times> 'v) list \<Rightarrow> pyval \<Rightarrow> 'v option" where
  "dict_lookup d k = map_option snd (dict_find d k)"

fun dict_update :: "pyval \<Rightarrow> 'v \<Rightarrow> (pyval \<times> 'v) list \<Rightarrow> (pyval \<times> 'v) list" where
  "dict_update k v [] = [(k, v)]"
| "dict_update k v (p # ps) =
     (if same_key (fst p) k then (fst p, v) # ps else p # dict_update k v ps)"

fun dict_remove :: "pyval \<Rightarrow> (pyval \<times> 'v) list \<Rightarrow> (pyval \<times> 'v) list" where
  "dict_remove k [] = []"
| "dict_remove k (p # ps) = (if same_key (fst p) k then ps else p # dict_remove k ps)"

text \<open>\<^verbatim>\<open>d[k]\<close>: TypeError on an unhashable key, KeyError on a missing one.\<close>

definition dict_getitem :: "collection \<Rightarrow> pyval \<Rightarrow> py_error + pyval" where
  "dict_getitem d k =
     (if \<not> hashable k then Inl TypeError
      else case dict_find d k of None \<Rightarrow> Inl KeyError | Some entry \<Rightarrow> Inr (snd entry))"

text \<open>\<^verbatim>\<open>d[k] = v\<close>.\<close>

definition dict_setitem :: "collection \<Rightarrow> pyval \<Rightarrow> pyval \<Rightarrow> py_error + collection" where
  "dict_setitem d k v =
     (if \<not> hashable k then Inl TypeError else Inr (dict_update k v d))"

text \<open>\<^verbatim>\<open>del d[k]\<close>.\<close>

definition dict_delitem :: "collection \<Rightarrow> pyval \<Rightarrow> py_error + collection" where
  "dict_delitem d k =
     (if \<not> hashable k then Inl TypeError
      else case dict_find d k of None \<Rightarrow> Inl KeyError | Some entry \<Rightarrow> Inr (dict_remove k d))"

text \<open>
  \<^verbatim>\<open>self.collections[collection_name]\<close>; a collection name is text, which is a key
  for the same text only.
\<close>

definition collections_getitem :: "database \<Rightarrow> string \<Rightarrow> py_error + collection" where
  "collections_getitem db name =
     (case map_of db name of None \<Rightarrow> Inl KeyError | Some c \<Rightarrow> Inr c)"



text \<open>
  \<^verbatim>\<open>Response(success, message, collection_name, data)\<close> of \<^verbatim>\<open>src/Models/response.py\<close>.
  The server puts \<^verbatim>\<open>None\<close>, a name or a list of two names in \<^verbatim>\<open>collection_name\<close>, and
  \<^verbatim>\<open>None\<close>, a list of entries or the dictionary of a join in \<^verbatim>\<open>data\<close>.
\<close>

datatype resp_name = NoName | Name string | Names "string list"

datatype resp_data =
    NoData
  | Entries "(pyval \<times> pyval) list"
  | Joined "(pyval \<times> pyval list) list"

record response =
  success :: bool
  message :: "string option"
  collection_name :: resp_name
  data :: "resp_data"

definition Response ::
  "bool \<Rightarrow> string option \<Rightarrow> resp_name \<Rightarrow> resp_data \<Rightarrow> response" where
  "Response s m n d = \<lparr>success = s, message = m, collection_name = n, data = d\<rparr>"

definition send_error :: "string \<Rightarrow> response" where
  "send_error description = Response False (Some description) NoName NoData"

section \<open>The collection store\<close>

text \<open>
  \<^verbatim>\<open>str.isalpha()\<close>: the string is not empty and every character is a letter. Below code
  point 256 the letters are A-Z, a-z, U+00AA, U+00B5, U+00BA, U+00C0-U+00D6,
  U+00D8-U+00F6 and U+00F8-U+00FF.
\<close>

definition alpha_code :: "nat \<Rightarrow> bool" where
  "alpha_code n \<longleftrightarrow>
     (65 \<le> n \<and> n \<le> 90) \<or> (97 \<le> n \<and> n \<le> 122) \<or> n = 170 \<or> n = 181 \<or> n = 186 \<or>
     (192 \<le> n \<and> n \<le> 214) \<or> (216 \<le> n \<and> n \<le> 246) \<or> (248 \<le> n \<and> n \<le> 255)"

definition isalpha :: "string \<Rightarrow> bool" where
  "isalpha s \<longleftrightarrow> s \<noteq> [] \<and> list_all (\<lambda>c. alpha_code (of_char c)) s"

definition collection_exists :: "database \<Rightarrow> string \<Rightarrow> bool" where
  "collection_exists db name =
     (case collections_getitem db name of Inl e \<Rightarrow> False | Inr c \<Rightarrow> True)"

text \<open>
  Every operation takes the database and returns it with the response, since the source
  mutates \<^verbatim>\<open>self.collections\<close> in place.
\<close>

definition create_collection :: "database \<Rightarrow> string \<Rightarrow> database \<times> response" where
  "create_collection db name =
     (if isalpha name then
        (case collections_getitem db name of
           Inl e \<Rightarrow> (AList.update name [] db, Response True None (Name name) NoData)
         | Inr c \<Rightarrow> (db, send_error ''Collection already exists.''))
      else (db, send_error ''Invalid collection name.''))"

definition delete_collection :: "database \<Rightarrow> string \<Rightarrow> database \<times> response" where
  "delete_collection db name =
     (case collections_getitem db name of
        Inr c \<Rightarrow> (AList.delete name db, Response True None NoName NoData)
      | Inl e \<Rightarrow> (db, send_error ''Collection does not exist.''))"

definition server_read :: "database \<Rightarrow> pyval \<Rightarrow> string \<Rightarrow> database \<times> response" where
  "server_read db key name =
     (if collection_exists db name then
        (case collections_getitem db name of
           Inl e \<Rightarrow> (db, send_error ''Entry does not exist.'')
         | Inr c \<Rightarrow>
             (case dict_getitem c key of
                Inl e \<Rightarrow> (db, send_error ''Entry does not exist.'')
              | Inr v \<Rightarrow> (db, Response True None (Name name) (Entries [(key, v)]))))
      else (db, send_error ''Collection does not exist.''))"

definition server_add ::
  "database \<Rightarrow> pyval \<Rightarrow> pyval \<Rightarrow> string \<Rightarrow> database \<times> response" where
  "server_add db key val name =
     (if collection_exists db name then
        (case collections_getitem db name of
           Inl e \<Rightarrow> (db, send_error ''Entry could not be added.'')
         | Inr c \<Rightarrow>
             (case dict_setitem c key val of
                Inl e \<Rightarrow> (db, send_error ''Entry could not be added.'')
              | Inr c' \<Rightarrow>
                  (case dict_getitem c' key of
                     Inl e \<Rightarrow> (AList.update name c' db, send_error ''Entry could not be added.'')
                   | Inr v \<Rightarrow>
                       (AList.update name c' db,
                        Response True None (Name name) (Entries [(key, v)])))))
      else (db, send_error ''Collection does not exist.''))"

definition server_delete :: "database \<Rightarrow> pyval \<Rightarrow> string \<Rightarrow> database \<times> response" where
  "server_delete db key name =
     (if collection_exists db name then
        (case collections_getitem db name of
           Inl e \<Rightarrow> (db, send_error ''Entry could not be deleted.'')
         | Inr c \<Rightarrow>
             (case dict_delitem c key of
                Inl e \<Rightarrow> (db, send_error ''Entry could not be deleted.'')
              | Inr c' \<Rightarrow> (AList.update name c' db, Response True None (Name name) NoData)))
      else (db, send_error ''Collection does not exist.''))"

section \<open>Operators\<close>

text \<open>
  The table \<^verbatim>\<open>operators\<close> of \<^verbatim>\<open>_query\<close> maps the six operator keywords to functions
  of the module \<^verbatim>\<open>operator\<close>. A call returns a truth value or raises.
\<close>

datatype cmp_op = Gt | Lt | Eq | Le | Ge | Contains

text \<open>
  Two things are parameters of the model: the conversions \<^verbatim>\<open>float(s)\<close> and
  \<^verbatim>\<open>complex(s)\<close> of text, which round to a floating-point number, and the six
  operators on every pair of operands that are not both integers or text.
\<close>

record runtime =
  py_float :: "string \<Rightarrow> py_error + pyfloat"
  py_complex :: "string \<Rightarrow> py_error + pyfloat \<times> pyfloat"
  py_operator :: "cmp_op \<Rightarrow> pyval \<Rightarrow> pyval \<Rightarrow> py_error + bool"

text \<open>Text is ordered lexicographically by code point; a proper prefix is smaller.\<close>

fun str_lt :: "string \<Rightarrow> string \<Rightarrow> bool" where
  "str_lt [] [] = False"
| "str_lt [] (y # ys) = True"
| "str_lt (x # xs) [] = False"
| "str_lt (x # xs) (y # ys) =
     (if (of_char x :: nat) < of_char y then True
      else if x = y then str_lt xs ys else False)"

text \<open>\<^verbatim>\<open>t in s\<close> for text: \<open>t\<close> occurs in \<open>s\<close> as a substring.\<close>

fun str_contains :: "string \<Rightarrow> string \<Rightarrow> bool" where
  "str_contains [] t = (t = [])"
| "str_contains (c # cs) t = (take (length t) (c # cs) = t \<or> str_contains cs t)"

text \<open>\<^verbatim>\<open>operator.contains(a, b)\<close> is \<^verbatim>\<open>b in a\<close>; an integer is not iterable.\<close>

fun int_operator :: "cmp_op \<Rightarrow> int \<Rightarrow> int \<Rightarrow> py_error + bool" where
  "int_operator Gt a b = Inr (a > b)"
| "int_operator Lt a b = Inr (a < b)"
| "int_operator Eq a b = Inr (a = b)"
| "int_operator Le a b = Inr (a \<le> b)"
| "int_operator Ge a b = Inr (a \<ge> b)"
| "int_operator Contains a b = Inl TypeError"

fun str_operator :: "cmp_op \<Rightarrow> string \<Rightarrow> string \<Rightarrow> py_error + bool" where
  "str_operator Gt a b = Inr (str_lt b a)"
| "str_operator Lt a b = Inr (str_lt a b)"
| "str_operator Eq a b = Inr (a = b)"
| "str_operator Le a b = Inr (\<not> str_lt b a)"
| "str_operator Ge a b = Inr (\<not> str_lt a b)"
| "str_operator Contains a b = Inr (str_contains a b)"

text \<open>
  An integer against text: \<^verbatim>\<open>==\<close> is false, the orderings raise TypeError, and so does
  \<^verbatim>\<open>in\<close> (text on the left of \<^verbatim>\<open>in\<close> needs text on the right; an integer is not
  iterable).
\<close>

fun int_str_operator :: "cmp_op \<Rightarrow> py_error + bool" where
  "int_str_operator Eq = Inr False"
| "int_str_operator op = Inl TypeError"

fun operator_apply :: "runtime \<Rightarrow> cmp_op \<Rightarrow> pyval \<Rightarrow> pyval \<Rightarrow> py_error + bool" where
  "operator_apply rt op (PInt a) (PInt b) = int_operator op a b"
| "operator_apply rt op (PStr a) (PStr b) = str_operator op a b"
| "operator_apply rt op (PInt a) (PStr b) = int_str_operator op"
| "operator_apply rt op (PStr a) (PInt b) = int_str_operator op"
| "operator_apply rt op a b = py_operator rt op a b"

section \<open>Query descriptors\<close>

datatype action = Read | Delete

datatype element = Key | Value

text \<open>
  What \<^verbatim>\<open>_parse_query_string\<close> returns: the named results of one of the two sentences,
  after the cast of the operand.
\<close>

datatype query =
    Query action element cmp_op "pyval" string
  | Join string string

fun collection1 :: "query \<Rightarrow> string" where
  "collection1 (Query act el op v c) = c"
| "collection1 (Join c1 c2) = c1"

section \<open>The query executor\<close>

text \<open>
  The table \<^verbatim>\<open>query_actions\<close> maps \<^verbatim>\<open>"read"\<close> to \<^verbatim>\<open>None\<close> and \<^verbatim>\<open>"delete"\<close> to the
  bound method \<^verbatim>\<open>self._delete_from_query\<close>, which takes a key and a collection name.
\<close>

datatype callee = PyNone | DeleteFromQuery

fun query_actions :: "action \<Rightarrow> callee" where
  "query_actions Read = PyNone"
| "query_actions Delete = DeleteFromQuery"

definition delete_from_query :: "database \<Rightarrow> pyval \<Rightarrow> string \<Rightarrow> py_error + database" where
  "delete_from_query db key name =
     (case collections_getitem db name of
        Inl e \<Rightarrow> Inl e
      | Inr c \<Rightarrow>
          (case dict_delitem c key of
             Inl e \<Rightarrow> Inl e
           | Inr c' \<Rightarrow> Inr (AList.update name c' db)))"

text \<open>
  \<^verbatim>\<open>query_action(key, collection_name)\<close>: calling \<^verbatim>\<open>None\<close> raises TypeError.
\<close>

fun call_key_name :: "callee \<Rightarrow> database \<Rightarrow> pyval \<Rightarrow> string \<Rightarrow> py_error + database" where
  "call_key_name PyNone db key name = Inl TypeError"
| "call_key_name DeleteFromQuery db key name = delete_from_query db key name"

text \<open>
  \<^verbatim>\<open>query_action(key)\<close>: calling \<^verbatim>\<open>None\<close> raises TypeError, and so does calling
  \<^verbatim>\<open>_delete_from_query\<close> with its argument \<^verbatim>\<open>collection_name\<close> missing.
\<close>

fun call_key :: "callee \<Rightarrow> database \<Rightarrow> pyval \<Rightarrow> py_error + database" where
  "call_key PyNone db key = Inl TypeError"
| "call_key DeleteFromQuery db key = Inl TypeError"

text \<open>
  One round of the loop of \<^verbatim>\<open>_execute_query_by_value\<close>. The body is inside
  \<^verbatim>\<open>try: ... except: pass\<close>: when the operator raises nothing happens, and when the
  action raises the entry has already been appended.
\<close>

definition by_value_step ::
  "runtime \<Rightarrow> callee \<Rightarrow> cmp_op \<Rightarrow> pyval \<Rightarrow> string \<Rightarrow> pyval \<times> pyval \<Rightarrow>
   database \<times> (pyval \<times> pyval) list \<Rightarrow> database \<times> (pyval \<times> pyval) list" where
  "by_value_step rt query_action op operand name entry st =
     (case operator_apply rt op (snd entry) operand of
        Inl e \<Rightarrow> st
      | Inr b \<Rightarrow>
          if b then
            (case call_key_name query_action (fst st) (fst entry) name of
               Inl e \<Rightarrow> (fst st, snd st @ [entry])
             | Inr db' \<Rightarrow> (db', snd st @ [entry]))
          else st)"

text \<open>The loop runs over \<^verbatim>\<open>self.collections[collection_name].copy().items()\<close>.\<close>

definition execute_query_by_value ::
  "runtime \<Rightarrow> callee \<Rightarrow> cmp_op \<Rightarrow> pyval \<Rightarrow> string \<Rightarrow> database \<Rightarrow>
   py_error + database \<times> (pyval \<times> pyval) list" where
  "execute_query_by_value rt query_action op operand name db =
     (case collections_getitem db name of
        Inl e \<Rightarrow> Inl e
      | Inr c \<Rightarrow> Inr (fold (by_value_step rt query_action op operand name) c (db, [])))"

text \<open>
  The attribute \<^verbatim>\<open>self.data\<close> that the \<^verbatim>\<open>=\<close> branch of \<^verbatim>\<open>_execute_query_by_key\<close>
  reads is assigned nowhere in the class: reading it raises AttributeError.
\<close>

definition self_data :: "py_error + collection" where
  "self_data = Inl AttributeError"

definition by_key_step ::
  "runtime \<Rightarrow> callee \<Rightarrow> cmp_op \<Rightarrow> pyval \<Rightarrow> pyval \<times> pyval \<Rightarrow>
   database \<times> (pyval \<times> pyval) list \<Rightarrow> database \<times> (pyval \<times> pyval) list" where
  "by_key_step rt query_action op operand entry st =
     (case operator_apply rt op (fst entry) operand of
        Inl e \<Rightarrow> st
      | Inr b \<Rightarrow>
          if b then
            (case call_key query_action (fst st) (fst entry) of
               Inl e \<Rightarrow> (fst st, snd st @ [entry])
             | Inr db' \<Rightarrow> (db', snd st @ [entry]))
          else st)"

definition execute_query_by_key ::
  "runtime \<Rightarrow> callee \<Rightarrow> cmp_op \<Rightarrow> pyval \<Rightarrow> string \<Rightarrow> database \<Rightarrow>
   py_error + database \<times> (pyval \<times> pyval) list" where
  "execute_query_by_key rt query_action op operand name db =
     (if op = Eq then
        (case self_data of
           Inl e \<Rightarrow> Inr (db, [])
         | Inr d \<Rightarrow>
             (case dict_getitem d operand of
                Inl e \<Rightarrow> Inr (db, [])
              | Inr v \<Rightarrow>
                  (case call_key query_action db operand of
                     Inl e \<Rightarrow> Inr (db, [(operand, v)])
                   | Inr db' \<Rightarrow> Inr (db', [(operand, v)]))))
      else
        (case collections_getitem db name of
           Inl e \<Rightarrow> Inl e
         | Inr c \<Rightarrow> Inr (fold (by_key_step rt query_action op operand) c (db, []))))"

text \<open>The table \<^verbatim>\<open>query_elements\<close>.\<close>

fun query_elements ::
  "element \<Rightarrow> runtime \<Rightarrow> callee \<Rightarrow> cmp_op \<Rightarrow> pyval \<Rightarrow> string \<Rightarrow> database \<Rightarrow>
   py_error + database \<times> (pyval \<times> pyval) list" where
  "query_elements Key = execute_query_by_key"
| "query_elements Value = execute_query_by_value"


text \<open>
  The join: \<^verbatim>\<open>matches = defaultdict(list)\<close>, and \<^verbatim>\<open>matches[key].append(value)\<close> for
  every entry of the first collection, then of the second.
\<close>

fun join_append :: "pyval \<Rightarrow> 'v \<Rightarrow> (pyval \<times> 'v list) list \<Rightarrow> (pyval \<times> 'v list) list" where
  "join_append k v [] = [(k, [v])]"
| "join_append k v (p # ps) =
     (if same_key (fst p) k then (fst p, snd p @ [v]) # ps else p # join_append k v ps)"

definition join_matches ::
  "(pyval \<times> 'v) list \<Rightarrow> (pyval \<times> 'v) list \<Rightarrow> (pyval \<times> 'v list) list" where
  "join_matches c1 c2 = fold (\<lambda>entry m. join_append (fst entry) (snd entry) m) (c1 @ c2) []"

section \<open>The query parser\<close>

text \<open>
  \<^verbatim>\<open>_parse_query_string\<close> builds its grammar from the elements of the library
  \<^verbatim>\<open>pyparsing\<close>, modelled here as that library documents them. A parser works on the
  input from a position on; the position is represented by the character before it (none
  at the start) and the rest of the input. A parser returns its token and the new
  position, or nothing where the library raises ParseException.
\<close>

type_synonym pstate = "char option \<times> string"
type_synonym 'a parser = "pstate \<Rightarrow> ('a \<times> pstate) option"

text \<open>The default whitespace of the library: space, newline, tab, carriage return.\<close>

definition white_char :: "char \<Rightarrow> bool" where
  "white_char c \<longleftrightarrow> (of_char c :: nat) \<in> {32, 10, 9, 13}"

text \<open>\<^verbatim>\<open>alphas\<close>: the ASCII letters.\<close>

definition alphas :: "char \<Rightarrow> bool" where
  "alphas c \<longleftrightarrow> (let n = (of_char c :: nat) in (65 \<le> n \<and> n \<le> 90) \<or> (97 \<le> n \<and> n \<le> 122))"

text \<open>\<^verbatim>\<open>printables\<close>: the ASCII characters that are printable and not whitespace.\<close>

definition printables :: "char \<Rightarrow> bool" where
  "printables c \<longleftrightarrow> (let n = (of_char c :: nat) in 33 \<le> n \<and> n \<le> 126)"

text \<open>The identifier characters of \<^verbatim>\<open>Keyword\<close>: letters, digits, underscore and dollar.\<close>

definition ident_char :: "char \<Rightarrow> bool" where
  "ident_char c \<longleftrightarrow>
     (let n = (of_char c :: nat) in
        (65 \<le> n \<and> n \<le> 90) \<or> (97 \<le> n \<and> n \<le> 122) \<or> (48 \<le> n \<and> n \<le> 57) \<or> n = 95 \<or> n = 36)"

text \<open>Every element first skips the whitespace at its position.\<close>

fun preParse :: "pstate \<Rightarrow> pstate" where
  "preParse (p, []) = (p, [])"
| "preParse (p, c # cs) = (if white_char c then preParse (Some c, cs) else (p, c # cs))"

text \<open>
  \<^verbatim>\<open>Keyword(kw)\<close> matches \<open>kw\<close> where the character after it, if any, and the character
  before it, if any, are not identifier characters.
\<close>

definition Keyword :: "string \<Rightarrow> string parser" where
  "Keyword kw st =
     (case preParse st of (p, s) \<Rightarrow>
        if take (length kw) s = kw
           \<and> (case drop (length kw) s of [] \<Rightarrow> True | c # cs \<Rightarrow> \<not> ident_char c)
           \<and> (case p of None \<Rightarrow> True | Some c \<Rightarrow> \<not> ident_char c)
        then Some (kw, (Some (last kw), drop (length kw) s))
        else None)"

text \<open>A string used as an element of a grammar is a \<^verbatim>\<open>Literal\<close>: it matches itself.\<close>

definition Literal :: "string \<Rightarrow> string parser" where
  "Literal lit st =
     (case preParse st of (p, s) \<Rightarrow>
        if take (length lit) s = lit
        then Some (lit, (Some (last lit), drop (length lit) s))
        else None)"

text \<open>\<^verbatim>\<open>Word(chars)\<close> matches the longest run of characters of \<open>chars\<close>, at least one.\<close>

definition Word :: "(char \<Rightarrow> bool) \<Rightarrow> string parser" where
  "Word chars st =
     (case preParse st of (p, s) \<Rightarrow>
        if takeWhile chars s = [] then None
        else Some (takeWhile chars s, (Some (last (takeWhile chars s)), dropWhile chars s)))"

text \<open>\<^verbatim>\<open>a | b\<close> (MatchFirst): the first alternative that matches at the position.\<close>

definition MatchFirst :: "'a parser \<Rightarrow> 'a parser \<Rightarrow> 'a parser" where
  "MatchFirst a b st = (case a st of Some r \<Rightarrow> Some r | None \<Rightarrow> b st)"

text \<open>A keyword with the value that the tables of \<^verbatim>\<open>_query\<close> give to it.\<close>

definition keyword_as :: "string \<Rightarrow> 'a \<Rightarrow> 'a parser" where
  "keyword_as kw x st = (case Keyword kw st of None \<Rightarrow> None | Some (t, st') \<Rightarrow> Some (x, st'))"

definition ACTION_QUERY :: "action parser" where
  "ACTION_QUERY = MatchFirst (keyword_as ''read'' Read) (keyword_as ''delete'' Delete)"

definition ELEMENT :: "element parser" where
  "ELEMENT = MatchFirst (keyword_as ''key'' Key) (keyword_as ''value'' Value)"

definition OPERATOR :: "cmp_op parser" where
  "OPERATOR =
     MatchFirst (keyword_as ''<='' Le)
    (MatchFirst (keyword_as ''>='' Ge)
    (MatchFirst (keyword_as ''<'' Lt)
    (MatchFirst (keyword_as ''>'' Gt)
    (MatchFirst (keyword_as ''='' Eq)
                (keyword_as ''contains'' Contains)))))"

text \<open>The operand: the results \<^verbatim>\<open>value_type\<close> (when present) and \<^verbatim>\<open>value\<close>.\<close>

definition VALUE_typed :: "(string option \<times> string) parser" where
  "VALUE_typed st0 = do {
     (value_type, st1) \<leftarrow> Word printables st0;
     (l, st2) \<leftarrow> Literal ''('' st1;
     (val, st3) \<leftarrow> Word printables st2;
     (r, st4) \<leftarrow> Literal '')'' st3;
     Some ((Some value_type, val), st4)
   }"

definition VALUE_bare :: "(string option \<times> string) parser" where
  "VALUE_bare st0 = do {
     (val, st1) \<leftarrow> Word printables st0;
     Some ((None, val), st1)
   }"

definition VALUE :: "(string option \<times> string) parser" where
  "VALUE = MatchFirst VALUE_typed VALUE_bare"

text \<open>The named results of a sentence, before the cast.\<close>

datatype parse_results =
    ResultsQuery action element cmp_op "string option" string string
  | ResultsJoin string string

definition SYNTAX_QUERY :: "parse_results parser" where
  "SYNTAX_QUERY st0 = do {
     (act, st1) \<leftarrow> ACTION_QUERY st0;
     (el, st2) \<leftarrow> ELEMENT st1;
     (op, st3) \<leftarrow> OPERATOR st2;
     ((value_type, val), st4) \<leftarrow> VALUE st3;
     (f, st5) \<leftarrow> Literal ''from'' st4;
     (c1, st6) \<leftarrow> Word alphas st5;
     Some (ResultsQuery act el op value_type val c1, st6)
   }"

definition SYNTAX_JOIN :: "parse_results parser" where
  "SYNTAX_JOIN st0 = do {
     (j, st1) \<leftarrow> Keyword ''join'' st0;
     (c1, st2) \<leftarrow> Word alphas st1;
     (w, st3) \<leftarrow> Literal ''with'' st2;
     (c2, st4) \<leftarrow> Word alphas st3;
     Some (ResultsJoin c1 c2, st4)
   }"

definition SYNTAX :: "parse_results parser" where
  "SYNTAX = MatchFirst SYNTAX_JOIN SYNTAX_QUERY"

text \<open>
  \<^verbatim>\<open>parseString\<close> without \<^verbatim>\<open>parseAll\<close>: the grammar is matched at the start of the
  input, and what follows the match is not looked at.
\<close>

definition parseString :: "'a parser \<Rightarrow> string \<Rightarrow> py_error + 'a" where
  "parseString p instring =
     (case p (None, instring) of None \<Rightarrow> Inl ParseException | Some (r, st) \<Rightarrow> Inr r)"

subsection \<open>The cast of the operand\<close>

text \<open>
  \<^verbatim>\<open>int(s)\<close> on text: surrounding whitespace is dropped, then an optional sign, then
  decimal digits, where one underscore may stand between two digits.
\<close>

definition py_isspace :: "char \<Rightarrow> bool" where
  "py_isspace c \<longleftrightarrow>
     (let n = (of_char c :: nat) in (9 \<le> n \<and> n \<le> 13) \<or> (28 \<le> n \<and> n \<le> 32) \<or> n = 133 \<or> n = 160)"

definition strip :: "string \<Rightarrow> string" where
  "strip s = rev (dropWhile py_isspace (rev (dropWhile py_isspace s)))"

definition digit_val :: "char \<Rightarrow> int option" where
  "digit_val c =
     (let n = (of_char c :: nat) in if 48 \<le> n \<and> n \<le> 57 then Some (int n - 48) else None)"

fun int_digits :: "int \<Rightarrow> string \<Rightarrow> int option" where
  "int_digits acc [] = Some acc"
| "int_digits acc [c] =
     (case digit_val c of None \<Rightarrow> None | Some n \<Rightarrow> Some (10 * acc + n))"
| "int_digits acc (c # d # ds) =
     (if c = CHR ''_'' then
        (case digit_val d of None \<Rightarrow> None | Some n \<Rightarrow> int_digits (10 * acc + n) ds)
      else
        (case digit_val c of None \<Rightarrow> None | Some n \<Rightarrow> int_digits (10 * acc + n) (d # ds)))"

definition int_unsigned :: "string \<Rightarrow> int option" where
  "int_unsigned s =
     (case s of
        [] \<Rightarrow> None
      | c # cs \<Rightarrow> (case digit_val c of None \<Rightarrow> None | Some n \<Rightarrow> int_digits n cs))"

definition py_int :: "string \<Rightarrow> py_error + int" where
  "py_int s =
     (case strip s of
        [] \<Rightarrow> Inl ValueError
      | c # cs \<Rightarrow>
          if c = CHR ''-'' then
            (case int_unsigned cs of None \<Rightarrow> Inl ValueError | Some n \<Rightarrow> Inr (- n))
          else if c = CHR ''+'' then
            (case int_unsigned cs of None \<Rightarrow> Inl ValueError | Some n \<Rightarrow> Inr n)
          else
            (case int_unsigned (c # cs) of None \<Rightarrow> Inl ValueError | Some n \<Rightarrow> Inr n))"

text \<open>
  \<^verbatim>\<open>types[value_type](value)\<close>: a tag that is not in the table raises KeyError, a
  conversion that fails raises ValueError.
\<close>

definition parse_value_to_type :: "runtime \<Rightarrow> string \<Rightarrow> string \<Rightarrow> py_error + pyval" where
  "parse_value_to_type rt val value_type =
     (if value_type = ''int'' then map_sum id PInt (py_int val)
      else if value_type = ''float'' then map_sum id PFloat (py_float rt val)
      else if value_type = ''complex'' then map_sum id (\<lambda>c. PComplex (fst c) (snd c)) (py_complex rt val)
      else if value_type = ''str'' then Inr (PStr val)
      else Inl KeyError)"

definition parse_query_string :: "runtime \<Rightarrow> string \<Rightarrow> py_error + query" where
  "parse_query_string rt q =
     (case parseString SYNTAX q of
        Inl e \<Rightarrow> Inl e
      | Inr (ResultsJoin c1 c2) \<Rightarrow> Inr (Join c1 c2)
      | Inr (ResultsQuery act el op None val c1) \<Rightarrow> Inr (Query act el op (PStr val) c1)
      | Inr (ResultsQuery act el op (Some value_type) val c1) \<Rightarrow>
          (case parse_value_to_type rt val value_type of
             Inl e \<Rightarrow> Inl e
           | Inr v \<Rightarrow> Inr (Query act el op v c1)))"

section \<open>The query operation and the request dispatch\<close>

text \<open>
  \<^verbatim>\<open>_query\<close>: the whole body is inside \<^verbatim>\<open>try: ... except Exception\<close>, which answers
  every exception with the response "Invalid query syntax.".
\<close>

definition server_query :: "runtime \<Rightarrow> database \<Rightarrow> string \<Rightarrow> database \<times> response" where
  "server_query rt db q =
     (case parse_query_string rt q of
        Inl e \<Rightarrow> (db, send_error ''Invalid query syntax.'')
      | Inr query \<Rightarrow>
          if \<not> collection_exists db (collection1 query)
          then (db, send_error (collection1 query @ '' does not exist.''))
          else
            (case query of
               Join c1 c2 \<Rightarrow>
                 if \<not> collection_exists db c2
                 then (db, send_error (c2 @ '' does not exist.''))
                 else
                   (case collections_getitem db c1 of
                      Inl e \<Rightarrow> (db, send_error ''Invalid query syntax.'')
                    | Inr d1 \<Rightarrow>
                        (case collections_getitem db c2 of
                           Inl e \<Rightarrow> (db, send_error ''Invalid query syntax.'')
                         | Inr d2 \<Rightarrow>
                             (db, Response True None (Names [c1, c2])
                                    (Joined (join_matches d1 d2)))))
             | Query act el op operand c1 \<Rightarrow>
                 (case query_elements el rt (query_actions act) op operand c1 db of
                    Inl e \<Rightarrow> (db, send_error ''Invalid query syntax.'')
                  | Inr (db', matches) \<Rightarrow>
                      (db', Response True None (Name c1) (Entries matches)))))"

text \<open>
  A request as the server reads it: \<^verbatim>\<open>request_type\<close>, \<^verbatim>\<open>collection_name\<close>,
  \<^verbatim>\<open>key\<close>, \<^verbatim>\<open>value\<close> and \<^verbatim>\<open>query\<close>.
\<close>

record request =
  request_type :: int
  request_collection_name :: string
  request_key :: "pyval"
  request_value :: "pyval"
  request_query :: string

text \<open>
  One round of the loop of \<^verbatim>\<open>_listen\<close>:
  \<^verbatim>\<open>response = request_types.get(request.request_type, 6)()\<close>. The table has the keys 0
  to 6. The default of \<^verbatim>\<open>get\<close> is the integer 6 itself, not the entry under 6, and
  calling an integer raises TypeError, which nothing in \<^verbatim>\<open>_listen\<close> catches.
\<close>

definition listen_step ::
  "runtime \<Rightarrow> database \<Rightarrow> request \<Rightarrow> py_error + database \<times> response" where
  "listen_step rt db request =
     (if request_type request = 0 then
        Inr (server_read db (request_key request) (request_collection_name request))
      else if request_type request = 1 then
        Inr (server_add db (request_key request) (request_value request)
               (request_collection_name request))
      else if request_type request = 2 then
        Inr (server_delete db (request_key request) (request_collection_name request))
      else if request_type request = 3 then
        Inr (server_query rt db (request_query request))
      else if request_type request = 4 then
        Inr (create_collection db (request_collection_name request))
      else if request_type request = 5 then
        Inr (delete_collection db (request_collection_name request))
      else if request_type request = 6 then
        Inr (db, send_error ''Request type does not exist.'')
      else Inl TypeError)"

section \<open>The two sentences of the query language\<close>

text \<open>
  The grammar as the specification words it: a sentence is a sequence of tokens, either
  \<^verbatim>\<open><action> <element> <operator> <value-spec> from <collection>\<close>, where the
  value-spec is a literal or \<^verbatim>\<open><type> ( <literal> )\<close>, or
  \<^verbatim>\<open>join <collection> with <collection>\<close>. A sentence is given by the results that
  the parser is to find in it.
\<close>

fun action_keyword :: "action \<Rightarrow> string" where
  "action_keyword Read = ''read''"
| "action_keyword Delete = ''delete''"

fun element_keyword :: "element \<Rightarrow> string" where
  "element_keyword Key = ''key''"
| "element_keyword Value = ''value''"

fun operator_keyword :: "cmp_op \<Rightarrow> string" where
  "operator_keyword Lt = ''<''"
| "operator_keyword Gt = ''>''"
| "operator_keyword Eq = ''=''"
| "operator_keyword Le = ''<=''"
| "operator_keyword Ge = ''>=''"
| "operator_keyword Contains = ''contains''"

fun sentence_tokens :: "parse_results \<Rightarrow> string list" where
  "sentence_tokens (ResultsQuery act el op None lit c) =
     [action_keyword act, element_keyword el, operator_keyword op, lit, ''from'', c]"
| "sentence_tokens (ResultsQuery act el op (Some ty) lit c) =
     [action_keyword act, element_keyword el, operator_keyword op, ty, ''('', lit, '')'',
      ''from'', c]"
| "sentence_tokens (ResultsJoin c1 c2) = [''join'', c1, ''with'', c2]"

text \<open>A literal or a type is one token of printable characters; a collection is alphabetic.\<close>

definition token :: "string \<Rightarrow> bool" where
  "token w \<longleftrightarrow> w \<noteq> [] \<and> list_all printables w"

definition alphabetic :: "string \<Rightarrow> bool" where
  "alphabetic w \<longleftrightarrow> w \<noteq> [] \<and> list_all alphas w"

fun sentence_ok :: "parse_results \<Rightarrow> bool" where
  "sentence_ok (ResultsQuery act el op None lit c) \<longleftrightarrow> token lit \<and> alphabetic c"
| "sentence_ok (ResultsQuery act el op (Some ty) lit c) \<longleftrightarrow> token ty \<and> token lit \<and> alphabetic c"
| "sentence_ok (ResultsJoin c1 c2) \<longleftrightarrow> alphabetic c1 \<and> alphabetic c2"

text \<open>The text of a sentence: its tokens, delimited by one space.\<close>

fun delimited :: "string list \<Rightarrow> string" where
  "delimited [] = []"
| "delimited [t] = t"
| "delimited (t # u # ts) = t @ CHR '' '' # delimited (u # ts)"

definition sentence :: "parse_results \<Rightarrow> string" where
  "sentence r = delimited (sentence_tokens r)"

text \<open>Tokens with a gap of whitespace, possibly empty, before each of them.\<close>

definition whitespace :: "string \<Rightarrow> bool" where
  "whitespace ws \<longleftrightarrow> list_all white_char ws"

fun spaced :: "string list \<Rightarrow> string list \<Rightarrow> string" where
  "spaced (g # gs) (t # ts) = g @ t @ spaced gs ts"
| "spaced gs ts = []"

text \<open>The character before a keyword, if there is one, is not an identifier character.\<close>

fun prev_ok :: "char option \<Rightarrow> bool" where
  "prev_ok None = True"
| "prev_ok (Some c) = (\<not> ident_char c)"

text \<open>A text is empty or its first character is as said.\<close>

fun next_is :: "(char \<Rightarrow> bool) \<Rightarrow> string \<Rightarrow> bool" where
  "next_is P [] = True"
| "next_is P (c # cs) = P c"

text \<open>The operator ends where the text goes on as said.\<close>

fun operator_ends :: "cmp_op \<Rightarrow> string \<Rightarrow> bool" where
  "operator_ends op [] = True"
| "operator_ends op (c # cs) =
     (\<not> ident_char c \<and>
      (if (op = Lt \<or> op = Gt) \<and> c = CHR ''='' then cs \<noteq> [] \<and> next_is ident_char cs else True))"

text \<open>
  Where whitespace is needed. A keyword ends where no identifier character follows, and
  a literal, a type and a collection name extend as far as their characters go, so:
  \<^item> whitespace is needed between action and element, between element and operator,
    after a literal and after a type, after \<^verbatim>\<open>join\<close>, and between the first collection
    and \<^verbatim>\<open>with\<close>;
  \<^item> none is needed before the first token, after \<^verbatim>\<open>(\<close>, after \<^verbatim>\<open>)\<close> and after
    \<^verbatim>\<open>from\<close> and \<^verbatim>\<open>with\<close>;
  \<^item> the operand may touch the operator when it starts with a character that is not an
    identifier character; after \<^verbatim>\<open><\<close> and \<^verbatim>\<open>>\<close> an operand that starts with
    \<^verbatim>\<open>=\<close> must go on with an identifier character, since otherwise the operator that
    is read is \<^verbatim>\<open><=\<close> or \<^verbatim>\<open>>=\<close>.
\<close>

fun may_touch :: "cmp_op \<Rightarrow> string \<Rightarrow> bool" where
  "may_touch op [] = False"
| "may_touch op (c # cs) =
     (\<not> ident_char c \<and>
      (if (op = Lt \<or> op = Gt) \<and> c = CHR ''='' then cs \<noteq> [] \<and> next_is ident_char cs else True))"

fun join_gaps :: "string list \<Rightarrow> bool" where
  "join_gaps [g0, g1, g2, g3] \<longleftrightarrow> g1 \<noteq> [] \<and> g2 \<noteq> []"
| "join_gaps gs \<longleftrightarrow> False"

fun bare_gaps :: "cmp_op \<Rightarrow> string \<Rightarrow> string list \<Rightarrow> bool" where
  "bare_gaps op lit [g0, g1, g2, g3, g4, g5] \<longleftrightarrow>
     g1 \<noteq> [] \<and> g2 \<noteq> [] \<and> (g3 \<noteq> [] \<or> may_touch op lit) \<and> g4 \<noteq> []"
| "bare_gaps op lit gs \<longleftrightarrow> False"

fun typed_gaps :: "cmp_op \<Rightarrow> string \<Rightarrow> string list \<Rightarrow> bool" where
  "typed_gaps op ty [g0, g1, g2, g3, g4, g5, g6, g7, g8] \<longleftrightarrow>
     g1 \<noteq> [] \<and> g2 \<noteq> [] \<and> (g3 \<noteq> [] \<or> may_touch op ty) \<and> g4 \<noteq> [] \<and> g6 \<noteq> []"
| "typed_gaps op ty gs \<longleftrightarrow> False"

fun gaps_ok :: "parse_results \<Rightarrow> string list \<Rightarrow> bool" where
  "gaps_ok (ResultsQuery act el op None lit c) gs = bare_gaps op lit gs"
| "gaps_ok (ResultsQuery act el op (Some ty) lit c) gs = typed_gaps op ty gs"
| "gaps_ok (ResultsJoin c1 c2) gs = join_gaps gs"

text \<open>
  A string starts with the sentence \<open>r\<close> when it is the tokens of \<open>r\<close>, well-formed,
  each after a gap of whitespace that is empty only where it may be, followed by any
  text that does not go on with a letter (which would belong to the collection name).
\<close>

definition starts_with_sentence :: "string \<Rightarrow> parse_results \<Rightarrow> bool" where
  "starts_with_sentence q r \<longleftrightarrow>
     sentence_ok r \<and>
     (\<exists>gaps rest. list_all whitespace gaps \<and> gaps_ok r gaps
        \<and> q = spaced gaps (sentence_tokens r) @ rest \<and> next_is (\<lambda>c. \<not> alphas c) rest)"

text \<open>
  A malformed query string: it starts with no sentence, or with one whose type is not in
  the table of types or whose literal the conversion of its type rejects.
\<close>

definition known_type :: "string \<Rightarrow> bool" where
  "known_type ty \<longleftrightarrow> ty = ''int'' \<or> ty = ''float'' \<or> ty = ''complex'' \<or> ty = ''str''"

definition cast_fails :: "runtime \<Rightarrow> string \<Rightarrow> string \<Rightarrow> bool" where
  "cast_fails rt ty lit \<longleftrightarrow>
     \<not> known_type ty
     \<or> (ty = ''int'' \<and> py_int lit = Inl ValueError)
     \<or> (ty = ''float'' \<and> isl (py_float rt lit))
     \<or> (ty = ''complex'' \<and> isl (py_complex rt lit))"

definition malformed :: "runtime \<Rightarrow> string \<Rightarrow> bool" where
  "malformed rt q \<longleftrightarrow>
     (\<forall>r. \<not> starts_with_sentence q r)
     \<or> (\<exists>act el op ty lit c.
           starts_with_sentence q (ResultsQuery act el op (Some ty) lit c) \<and> cast_fails rt ty lit)"

section \<open>Example stores\<close>

text \<open>
  A runtime for inputs made of integers and text: it rejects every floating-point and
  complex literal and is never asked about an operator on such inputs.
\<close>

definition text_runtime :: "runtime" where
  "text_runtime =
     \<lparr>py_float = (\<lambda>s. Inl ValueError), py_complex = (\<lambda>s. Inl ValueError),
      py_operator = (\<lambda>op a b. Inl TypeError)\<rparr>"

text \<open>The collection \<^verbatim>\<open>cars = {1000: "a", 2000: "b", 1234: "c"}\<close>.\<close>

definition cars :: "database" where
  "cars = [(''cars'', [(PInt 1000, PStr ''a''), (PInt 2000, PStr ''b''), (PInt 1234, PStr ''c'')])]"

text \<open>The same collection with text keys.\<close>

definition cars_text :: "database" where
  "cars_text =
     [(''cars'', [(PStr ''1000'', PStr ''a''), (PStr ''2000'', PStr ''b''), (PStr ''1234'', PStr ''c'')])]"

text \<open>The collections of the doctest of \<^verbatim>\<open>src/client.py\<close>.\<close>

definition people :: "database" where
  "people =
     [(''firstName'', [(PInt 1, PStr ''Radu'')]),
      (''lastName'', [(PInt 1, PStr ''Onescu'')]),
      (''age'', [(PInt 2, PInt 25), (PInt 1, PInt 20)])]"


text \<open>A store with a collection whose name is alphabetic and not ASCII.\<close>

definition ete :: string where
  "ete = [CHR 0xE9, CHR ''t'', CHR 0xE9]"

definition summer :: "database" where
  "summer = [(ete, [(PInt 1, PStr ''x'')])]"

text \<open>Two collections whose keys are equal numbers of different types.\<close>

definition numbers :: "database" where
  "numbers =
     [(''ints'', [(PInt 1, PStr ''x''), (PInt 2, PStr ''u'')]),
      (''floats'', [(PFloat (Finite 1), PStr ''y''), (PFloat (NaN 0), PStr ''n'')])]"

definition example_request :: "int \<Rightarrow> request" where
  "example_request n =
     \<lparr>request_type = n, request_collection_name = ''cars'', request_key = PInt 1000,
      request_value = PStr ''z'', request_query = ''read key > 1234 from cars''\<rparr>"

section \<open>Properties of the key test and of dictionaries\<close>

lemma same_key_refl [simp]: "same_key a a"
  by (simp add: same_key_def)






lemma dict_find_update:
  "\<exists>s. dict_find (dict_update k v d) k = Some (s, v) \<and> same_key s k"
  by (induction d) (auto simp: dict_find_def)




section \<open>Properties of the collection store\<close>

lemma dict_getitem_setitem:
  "dict_setitem c k v = Inr c' \<Longrightarrow> dict_getitem c' k = Inr v"
  using dict_find_update [of k v c]
  by (auto simp: dict_setitem_def dict_getitem_def split: if_splits)








lemma success_send_error [simp]: "\<not> success (send_error m)"
  by (simp add: send_error_def Response_def)

lemma success_Response [simp]: "success (Response s m n d) = s"
  by (simp add: Response_def)

lemma data_Response [simp]: "data (Response s m n d) = d"
  by (simp add: Response_def)

section \<open>Claims about the request dispatch\<close>

text \<open>
  C4. A request whose type is none of the recognised kinds should be answered with the
  failure response "Request type does not exist.". At the request type 7 the dispatch of
  \<^verbatim>\<open>_listen\<close> raises TypeError instead; only the type 6 is answered with that response.
\<close>

theorem listen_step_unknown_type_raises:
  "listen_step text_runtime cars (example_request 7) = Inl TypeError
   \<and> listen_step text_runtime cars (example_request 6)
       = Inr (cars, send_error ''Request type does not exist.'')"
  by (simp add: listen_step_def example_request_def)

section \<open>Lemmas about the query executor\<close>

lemma fold_by_key_step:
  "fold (by_key_step rt qa op operand) c st
     = (fst st, snd st @ filter (\<lambda>e. operator_apply rt op (fst e) operand = Inr True) c)"
proof (induction c arbitrary: st)
  case Nil
  then show ?case by simp
next
  case (Cons e c)
  have step: "by_key_step rt qa op operand e st
                = (fst st, snd st @ (if operator_apply rt op (fst e) operand = Inr True then [e] else []))"
    by (cases qa; cases "operator_apply rt op (fst e) operand")
       (auto simp: by_key_step_def)
  show ?case by (simp add: Cons.IH step)
qed







section \<open>Claims about the query executor\<close>

text \<open>
  C1. A delete-by-key query with one of the operators <, >, <=, >=, contains should
  remove every matching entry from the collection. At the query
  "delete key > int ( 1234 ) from cars" the matching entry (2000, "b") is reported and
  the collection is left as it was; the same deletion by value removes its matches.
\<close>

theorem delete_by_key_removes_nothing:
  "server_query text_runtime cars ''delete key > int ( 1234 ) from cars''
     = (cars, Response True None (Name ''cars'') (Entries [(PInt 2000, PStr ''b'')]))
   \<and> server_query text_runtime cars ''delete value >= b from cars''
     = ([(''cars'', [(PInt 1000, PStr ''a'')])],
        Response True None (Name ''cars'')
          (Entries [(PInt 2000, PStr ''b''), (PInt 1234, PStr ''c'')]))"
  by code_simp

text \<open>
  C2. A query by key with the operator = should return the entry of the named collection
  under the operand. At "read key = int ( 1234 ) from cars" the key 1234 is in the
  collection, as the read operation shows, and the query returns no entry; the delete
  query returns none and removes none.
\<close>

theorem key_equals_finds_nothing:
  "server_query text_runtime cars ''read key = int ( 1234 ) from cars''
     = (cars, Response True None (Name ''cars'') (Entries []))
   \<and> server_query text_runtime cars ''delete key = int ( 1234 ) from cars''
     = (cars, Response True None (Name ''cars'') (Entries []))
   \<and> server_read cars (PInt 1234) ''cars''
     = (cars, Response True None (Name ''cars'') (Entries [(PInt 1234, PStr ''c'')]))"
  by code_simp

text \<open>
  C3, as stated: the query "read key > 1234 from cars" on the collection
  {1000: "a", 2000: "b", 1234: "c"} does not return [(2000, "b")].
\<close>

theorem read_key_gt_1234_counterexample:
  "data (snd (server_query text_runtime cars ''read key > 1234 from cars''))
     \<noteq> Entries [(PInt 2000, PStr ''b'')]"
  by code_simp

text \<open>
  C3, amended: the operand of "read key > 1234 from cars" is the text "1234"; on the
  collection with the integer keys 1000, 2000, 1234 every comparison raises and the
  result is empty. The result is [(2000, "b")] when the operand is written
  int ( 1234 ), and [("2000", "b")] when the keys are the texts "1000", "2000", "1234".
\<close>

theorem read_key_gt_1234:
  "server_query text_runtime cars ''read key > 1234 from cars''
     = (cars, Response True None (Name ''cars'') (Entries []))
   \<and> server_query text_runtime cars ''read key > int ( 1234 ) from cars''
     = (cars, Response True None (Name ''cars'') (Entries [(PInt 2000, PStr ''b'')]))
   \<and> server_query text_runtime cars_text ''read key > 1234 from cars''
     = (cars_text, Response True None (Name ''cars'') (Entries [(PStr ''2000'', PStr ''b'')]))"
  by code_simp



section \<open>Claims about failures\<close>

lemma server_query_parse_error:
  "parse_query_string rt q = Inl e \<Longrightarrow> server_query rt db q = (db, send_error ''Invalid query syntax.'')"
  by (simp add: server_query_def)

lemma create_collection_failure:
  "\<not> success (snd (create_collection db name)) \<Longrightarrow> fst (create_collection db name) = db"
  by (auto simp: create_collection_def split: sum.splits if_splits)

lemma delete_collection_failure:
  "\<not> success (snd (delete_collection db name)) \<Longrightarrow> fst (delete_collection db name) = db"
  by (auto simp: delete_collection_def split: sum.splits)

lemma server_read_database: "fst (server_read db key name) = db"
  by (auto simp: server_read_def split: sum.splits)

lemma server_add_failure:
  "\<not> success (snd (server_add db key val name)) \<Longrightarrow> fst (server_add db key val name) = db"
  by (auto simp: server_add_def dict_getitem_setitem split: sum.splits if_splits)

lemma server_delete_failure:
  "\<not> success (snd (server_delete db key name)) \<Longrightarrow> fst (server_delete db key name) = db"
  by (auto simp: server_delete_def split: sum.splits if_splits)

lemma execute_query_by_key_database:
  "execute_query_by_key rt qa op operand name db = Inr (db', ms) \<Longrightarrow> db' = db"
  by (auto simp: execute_query_by_key_def self_data_def fold_by_key_step split: sum.splits if_splits)

lemma server_query_failure:
  "\<not> success (snd (server_query rt db q)) \<Longrightarrow> fst (server_query rt db q) = db"
  by (auto simp: server_query_def split: sum.splits query.splits if_splits prod.splits)

text \<open>
  C10. Whenever create collection, delete collection, read, add, delete entry or query
  returns a failure response, the database it returns is the database it was given; the
  same holds through the dispatch of a request.
\<close>

theorem failure_leaves_database:
  "(\<not> success (snd (create_collection db name)) \<longrightarrow> fst (create_collection db name) = db)
   \<and> (\<not> success (snd (delete_collection db name)) \<longrightarrow> fst (delete_collection db name) = db)
   \<and> (\<not> success (snd (server_read db key name)) \<longrightarrow> fst (server_read db key name) = db)
   \<and> (\<not> success (snd (server_add db key val name)) \<longrightarrow> fst (server_add db key val name) = db)
   \<and> (\<not> success (snd (server_delete db key name)) \<longrightarrow> fst (server_delete db key name) = db)
   \<and> (\<not> success (snd (server_query rt db q)) \<longrightarrow> fst (server_query rt db q) = db)
   \<and> (\<forall>db' r. listen_step rt db request = Inr (db', r) \<and> \<not> success r \<longrightarrow> db' = db)"
proof -
  have "db' = db" if "listen_step rt db request = Inr (db', r)" and "\<not> success r" for db' r
  proof -
    from that(1) consider
        "(db', r) = server_read db (request_key request) (request_collection_name request)"
      | "(db', r) = server_add db (request_key request) (request_value request)
                      (request_collection_name request)"
      | "(db', r) = server_delete db (request_key request) (request_collection_name request)"
      | "(db', r) = server_query rt db (request_query request)"
      | "(db', r) = create_collection db (request_collection_name request)"
      | "(db', r) = delete_collection db (request_collection_name request)"
      | "(db', r) = (db, send_error ''Request type does not exist.'')"
      by (auto simp: listen_step_def split: if_splits)
    then show ?thesis
    proof cases
      case 1
      then show ?thesis using server_read_database [of db] by (metis fst_conv)
    next
      case 2
      then show ?thesis using server_add_failure [of db] that(2) by (metis fst_conv snd_conv)
    next
      case 3
      then show ?thesis using server_delete_failure [of db] that(2) by (metis fst_conv snd_conv)
    next
      case 4
      then show ?thesis using server_query_failure [of rt db] that(2) by (metis fst_conv snd_conv)
    next
      case 5
      then show ?thesis using create_collection_failure [of db] that(2) by (metis fst_conv snd_conv)
    next
      case 6
      then show ?thesis using delete_collection_failure [of db] that(2) by (metis fst_conv snd_conv)
    next
      case 7
      then show ?thesis by simp
    qed
  qed
  then show ?thesis
    using create_collection_failure delete_collection_failure server_read_database
      server_add_failure server_delete_failure server_query_failure
    by blast
qed


theorem failure_leaves_database_witness:
  "\<not> success (snd (create_collection cars ''cars''))
   \<and> fst (create_collection cars ''cars'') = cars
   \<and> \<not> success (snd (delete_collection cars ''dogs''))
   \<and> fst (delete_collection cars ''dogs'') = cars
   \<and> \<not> success (snd (server_read cars (PInt 5) ''cars''))
   \<and> fst (server_read cars (PInt 5) ''cars'') = cars
   \<and> \<not> success (snd (server_add cars (PList []) (PStr ''z'') ''cars''))
   \<and> fst (server_add cars (PList []) (PStr ''z'') ''cars'') = cars
   \<and> \<not> success (snd (server_delete cars (PInt 5) ''cars''))
   \<and> fst (server_delete cars (PInt 5) ''cars'') = cars
   \<and> \<not> success (snd (server_query text_runtime cars ''delete value = a from dogs''))
   \<and> fst (server_query text_runtime cars ''delete value = a from dogs'') = cars
   \<and> listen_step text_runtime cars (example_request 6)
       = Inr (cars, send_error ''Request type does not exist.'')"
proof -
  have h1: "\<not> success (snd (create_collection cars ''cars''))" by code_simp
  have h2: "\<not> success (snd (delete_collection cars ''dogs''))" by code_simp
  have h3: "\<not> success (snd (server_read cars (PInt 5) ''cars''))" by code_simp
  have h4: "\<not> success (snd (server_add cars (PList []) (PStr ''z'') ''cars''))" by code_simp
  have h5: "\<not> success (snd (server_delete cars (PInt 5) ''cars''))" by code_simp
  have h6: "\<not> success (snd (server_query text_runtime cars ''delete value = a from dogs''))"
    by code_simp
  have h7: "listen_step text_runtime cars (example_request 6)
              = Inr (cars, send_error ''Request type does not exist.'')"
    by (simp add: listen_step_def example_request_def)
  have h8: "\<not> success (send_error ''Request type does not exist.'' :: response)" by simp
  from failure_leaves_database
         [of cars "''cars''" "PInt 5" "PStr ''z''" text_runtime
             "''delete value = a from dogs''" "example_request 6"]
       failure_leaves_database
         [of cars "''dogs''" "PList []" "PStr ''z''" text_runtime
             "''delete value = a from dogs''" "example_request 6"]
       failure_leaves_database
         [of cars "''cars''" "PList []" "PStr ''z''" text_runtime
             "''delete value = a from dogs''" "example_request 6"]
       h1 h2 h3 h4 h5 h6 h7 h8
  show ?thesis by blast
qed

section \<open>Claims about the collection store\<close>






section \<open>Lemmas about the parser: its elements\<close>

lemma white_char_space [simp]: "white_char CHR '' ''"
  by (simp add: white_char_def)

lemma printables_not_white: "printables c \<Longrightarrow> \<not> white_char c"
  by (auto simp: printables_def white_char_def Let_def)

lemma alphas_not_white: "alphas c \<Longrightarrow> \<not> white_char c"
  by (auto simp: alphas_def white_char_def Let_def)

lemma white_not_ident: "white_char c \<Longrightarrow> \<not> ident_char c"
  by (auto simp: ident_char_def white_char_def Let_def)

lemma alphas_ident: "alphas c \<Longrightarrow> ident_char c"
  by (auto simp: ident_char_def alphas_def Let_def)

lemma alphas_printables: "alphas c \<Longrightarrow> printables c"
  by (auto simp: printables_def alphas_def Let_def)

lemma next_is_mono: "next_is P s \<Longrightarrow> (\<And>c. P c \<Longrightarrow> Q c) \<Longrightarrow> next_is Q s"
  by (cases s) simp_all

lemma next_is_append: "s \<noteq> [] \<Longrightarrow> next_is P (s @ t) = next_is P s"
  by (cases s) simp_all

lemma whitespace_Nil [simp]: "whitespace []"
  by (simp add: whitespace_def)

lemma whitespace_next: "whitespace g \<Longrightarrow> g \<noteq> [] \<Longrightarrow> next_is white_char (g @ s)"
  by (cases g) (simp_all add: whitespace_def)

text \<open>Skipping a gap.\<close>

lemma preParse_gap:
  "whitespace g \<Longrightarrow> next_is (\<lambda>c. \<not> white_char c) s \<Longrightarrow>
   preParse (p, g @ s) = ((if g = [] then p else Some (last g)), s)"
proof (induction g arbitrary: p)
  case Nil
  then show ?case by (cases s) simp_all
next
  case (Cons c g)
  then have "white_char c" and w: "whitespace g" by (simp_all add: whitespace_def)
  with Cons.IH [OF w Cons.prems(2), of "Some c"] show ?case by simp
qed

lemma preParse_shape:
  "preParse (p, s) = (p', s') \<Longrightarrow>
   \<exists>g. whitespace g \<and> s = g @ s' \<and> next_is (\<lambda>c. \<not> white_char c) s'
       \<and> p' = (if g = [] then p else Some (last g))"
proof (induction s arbitrary: p)
  case Nil
  then have "whitespace [] \<and> [] = [] @ s' \<and> next_is (\<lambda>c. \<not> white_char c) s'
      \<and> p' = (if ([]::string) = [] then p else Some (last []))"
    by simp
  then show ?case by blast
next
  case (Cons c cs)
  show ?case
  proof (cases "white_char c")
    case True
    with Cons.prems have "preParse (Some c, cs) = (p', s')" by simp
    from Cons.IH [OF this] obtain g where g: "whitespace g" "cs = g @ s'"
      "next_is (\<lambda>c. \<not> white_char c) s'" "p' = (if g = [] then Some c else Some (last g))"
      by blast
    with True have "whitespace (c # g) \<and> c # cs = (c # g) @ s'
        \<and> next_is (\<lambda>c. \<not> white_char c) s'
        \<and> p' = (if c # g = [] then p else Some (last (c # g)))"
      by (simp add: whitespace_def)
    then show ?thesis by blast
  next
    case False
    with Cons.prems have "s' = c # cs" "p' = p" by simp_all
    with False have "whitespace [] \<and> c # cs = [] @ s' \<and> next_is (\<lambda>c. \<not> white_char c) s'
        \<and> p' = (if ([]::string) = [] then p else Some (last []))"
      by simp
    then show ?thesis by blast
  qed
qed

lemma Keyword_unfold:
  "Keyword kw st =
     (case preParse st of (p, s) \<Rightarrow>
        if take (length kw) s = kw \<and> next_is (\<lambda>c. \<not> ident_char c) (drop (length kw) s) \<and> prev_ok p
        then Some (kw, (Some (last kw), drop (length kw) s)) else None)"
proof -
  have a: "(case s of [] \<Rightarrow> True | c # cs \<Rightarrow> \<not> ident_char c) = next_is (\<lambda>c. \<not> ident_char c) s"
    for s by (cases s) simp_all
  have b: "(case p of None \<Rightarrow> True | Some c \<Rightarrow> \<not> ident_char c) = prev_ok p"
    for p by (cases p) simp_all
  show ?thesis by (simp add: Keyword_def a b split: prod.splits)
qed

lemma prev_ok_gap: "whitespace g \<Longrightarrow> g = [] \<longrightarrow> prev_ok p \<Longrightarrow>
  prev_ok (if g = [] then p else Some (last g))"
  by (cases "g = []") (auto simp: whitespace_def list_all_iff white_not_ident)

lemma Keyword_gap:
  assumes "whitespace g" and "kw \<noteq> []" and "\<not> white_char (hd kw)"
      and "next_is (\<lambda>c. \<not> ident_char c) r" and "g = [] \<longrightarrow> prev_ok p"
  shows "Keyword kw (p, g @ kw @ r) = Some (kw, (Some (last kw), r))"
proof -
  from assms(2,3) have "next_is (\<lambda>c. \<not> white_char c) (kw @ r)" by (cases kw) simp_all
  from preParse_gap [OF assms(1) this]
  have "preParse (p, g @ kw @ r) = ((if g = [] then p else Some (last g)), kw @ r)" .
  with prev_ok_gap [OF assms(1,5)] assms(4) show ?thesis
    by (simp add: Keyword_unfold)
qed

lemma Keyword_fail:
  assumes "whitespace g" and "next_is (\<lambda>c. \<not> white_char c) s"
      and "take (length kw) s \<noteq> kw \<or> \<not> next_is (\<lambda>c. \<not> ident_char c) (drop (length kw) s)"
  shows "Keyword kw (p, g @ s) = None"
  using preParse_gap [OF assms(1,2), of p] assms(3) by (auto simp: Keyword_unfold)

lemma Keyword_shape:
  assumes "Keyword kw (p, s) = Some (t, (p', s'))"
  shows "\<exists>g. whitespace g \<and> s = g @ kw @ s' \<and> next_is (\<lambda>c. \<not> ident_char c) s'
           \<and> p' = Some (last kw) \<and> (g = [] \<longrightarrow> prev_ok p)"
proof -
  obtain q u where pre: "preParse (p, s) = (q, u)" by (cases "preParse (p, s)")
  with assms have k: "take (length kw) u = kw" and r: "s' = drop (length kw) u"
    and n: "next_is (\<lambda>c. \<not> ident_char c) s'" and q: "prev_ok q" and p': "p' = Some (last kw)"
    by (auto simp: Keyword_unfold split: if_splits)
  from k r have u: "u = kw @ s'" by (metis append_take_drop_id)
  from preParse_shape [OF pre] obtain g where
    g: "whitespace g" "s = g @ u" "q = (if g = [] then p else Some (last g))"
    by blast
  from g(3) q have "g = [] \<longrightarrow> prev_ok p" by (cases "g = []") simp_all
  with g(1,2) u n p' show ?thesis by blast
qed

lemma Literal_gap:
  assumes "whitespace g" and "lit \<noteq> []" and "\<not> white_char (hd lit)"
  shows "Literal lit (p, g @ lit @ r) = Some (lit, (Some (last lit), r))"
proof -
  from assms(2,3) have "next_is (\<lambda>c. \<not> white_char c) (lit @ r)" by (cases lit) simp_all
  from preParse_gap [OF assms(1) this] show ?thesis by (simp add: Literal_def)
qed

lemma Literal_fail:
  assumes "whitespace g" and "next_is (\<lambda>c. \<not> white_char c) s" and "take (length lit) s \<noteq> lit"
  shows "Literal lit (p, g @ s) = None"
  using preParse_gap [OF assms(1,2), of p] assms(3) by (simp add: Literal_def)

lemma Literal_shape:
  assumes "Literal lit (p, s) = Some (t, (p', s'))"
  shows "\<exists>g. whitespace g \<and> s = g @ lit @ s' \<and> p' = Some (last lit)"
proof -
  obtain q u where pre: "preParse (p, s) = (q, u)" by (cases "preParse (p, s)")
  with assms have k: "take (length lit) u = lit" and r: "s' = drop (length lit) u"
    and p': "p' = Some (last lit)"
    by (auto simp: Literal_def split: if_splits)
  from k r have u: "u = lit @ s'" by (metis append_take_drop_id)
  from preParse_shape [OF pre] obtain g where "whitespace g" "s = g @ u" by blast
  with u p' show ?thesis by blast
qed

lemma next_is_dropWhile: "next_is (\<lambda>c. \<not> P c) (dropWhile P u)"
  by (induction u) simp_all

lemma Word_gap:
  assumes "whitespace g" and "w \<noteq> []" and "list_all P w" and "\<And>c. P c \<Longrightarrow> \<not> white_char c"
      and "next_is (\<lambda>c. \<not> P c) r"
  shows "Word P (p, g @ w @ r) = Some (w, (Some (last w), r))"
proof -
  from assms(2,3,4) have "next_is (\<lambda>c. \<not> white_char c) (w @ r)" by (cases w) simp_all
  from preParse_gap [OF assms(1) this]
  have pre: "preParse (p, g @ w @ r) = ((if g = [] then p else Some (last g)), w @ r)" .
  from assms(3) have all: "\<And>x. x \<in> set w \<Longrightarrow> P x" by (simp add: list_all_iff)
  from assms(5) have r: "takeWhile P r = []" "dropWhile P r = r"
    by (cases r; simp)+
  have "takeWhile P (w @ r) = w" "dropWhile P (w @ r) = r"
    using all r by simp_all
  with pre assms(2) show ?thesis by (simp add: Word_def)
qed

lemma Word_shape:
  assumes "Word P (p, s) = Some (w, (p', s'))"
  shows "w \<noteq> [] \<and> list_all P w
         \<and> (\<exists>g. whitespace g \<and> s = g @ w @ s' \<and> next_is (\<lambda>c. \<not> P c) s' \<and> p' = Some (last w))"
proof -
  obtain q u where pre: "preParse (p, s) = (q, u)" by (cases "preParse (p, s)")
  with assms have w: "w = takeWhile P u" "w \<noteq> []" and r: "s' = dropWhile P u"
    and p': "p' = Some (last w)"
    by (auto simp: Word_def split: if_splits)
  from w r have u: "u = w @ s'" by simp
  from r have n: "next_is (\<lambda>c. \<not> P c) s'"
    by (simp add: next_is_dropWhile)
  from preParse_shape [OF pre] obtain g where "whitespace g" "s = g @ u" by blast
  moreover from w have "list_all P w"
    by (auto simp: list_all_iff dest: set_takeWhileD)
  ultimately show ?thesis using w(2) u n p' by blast
qed

section \<open>Lemmas about the parser: the keywords\<close>

lemma keyword_as_gap:
  assumes "whitespace g" and "kw \<noteq> []" and "\<not> white_char (hd kw)"
      and "next_is (\<lambda>c. \<not> ident_char c) r" and "g = [] \<longrightarrow> prev_ok p"
  shows "keyword_as kw x (p, g @ kw @ r) = Some (x, (Some (last kw), r))"
  by (simp add: keyword_as_def Keyword_gap [OF assms])

lemma keyword_as_fail:
  assumes "whitespace g" and "next_is (\<lambda>c. \<not> white_char c) s"
      and "take (length kw) s \<noteq> kw \<or> \<not> next_is (\<lambda>c. \<not> ident_char c) (drop (length kw) s)"
  shows "keyword_as kw x (p, g @ s) = None"
  by (simp add: keyword_as_def Keyword_fail [OF assms])

lemma keyword_as_shape:
  assumes "keyword_as kw x (p, s) = Some (y, (p', s'))"
  shows "y = x \<and> (\<exists>g. whitespace g \<and> s = g @ kw @ s' \<and> next_is (\<lambda>c. \<not> ident_char c) s'
           \<and> p' = Some (last kw) \<and> (g = [] \<longrightarrow> prev_ok p))"
proof -
  from assms obtain t where "Keyword kw (p, s) = Some (t, (p', s'))" and "y = x"
    by (auto simp: keyword_as_def split: option.splits)
  with Keyword_shape show ?thesis by blast
qed

lemma ACTION_QUERY_gap:
  assumes "whitespace g" and "g = [] \<longrightarrow> prev_ok p" and "next_is (\<lambda>c. \<not> ident_char c) r"
  shows "ACTION_QUERY (p, g @ action_keyword act @ r)
           = Some (act, (Some (last (action_keyword act)), r))"
proof (cases act)
  case Read
  have "keyword_as ''read'' Read (p, g @ ''read'' @ r) = Some (Read, (Some (last ''read''), r))"
    by (rule keyword_as_gap [OF assms(1) _ _ assms(3,2)]) (simp_all add: white_char_def)
  then show ?thesis by (simp add: Read ACTION_QUERY_def MatchFirst_def)
next
  case Delete
  have "keyword_as ''read'' Read (p, g @ ''delete'' @ r) = None"
    by (rule keyword_as_fail [OF assms(1)]) (simp_all add: white_char_def)
  moreover have "keyword_as ''delete'' Delete (p, g @ ''delete'' @ r)
      = Some (Delete, (Some (last ''delete''), r))"
    by (rule keyword_as_gap [OF assms(1) _ _ assms(3,2)]) (simp_all add: white_char_def)
  ultimately show ?thesis by (simp add: Delete ACTION_QUERY_def MatchFirst_def)
qed

lemma ACTION_QUERY_shape:
  assumes "ACTION_QUERY (p, s) = Some (act, (p', s'))"
  shows "\<exists>g. whitespace g \<and> s = g @ action_keyword act @ s'
           \<and> next_is (\<lambda>c. \<not> ident_char c) s'
           \<and> p' = Some (last (action_keyword act)) \<and> (g = [] \<longrightarrow> prev_ok p)"
proof -
  from assms consider "keyword_as ''read'' Read (p, s) = Some (act, (p', s'))"
    | "keyword_as ''delete'' Delete (p, s) = Some (act, (p', s'))"
    by (auto simp: ACTION_QUERY_def MatchFirst_def split: option.splits)
  then show ?thesis
    by cases (auto dest!: keyword_as_shape)
qed

lemma ELEMENT_gap:
  assumes "whitespace g" and "g = [] \<longrightarrow> prev_ok p" and "next_is (\<lambda>c. \<not> ident_char c) r"
  shows "ELEMENT (p, g @ element_keyword el @ r)
           = Some (el, (Some (last (element_keyword el)), r))"
proof (cases el)
  case Key
  have "keyword_as ''key'' Key (p, g @ ''key'' @ r) = Some (Key, (Some (last ''key''), r))"
    by (rule keyword_as_gap [OF assms(1) _ _ assms(3,2)]) (simp_all add: white_char_def)
  then show ?thesis by (simp add: Key ELEMENT_def MatchFirst_def)
next
  case Value
  have "keyword_as ''key'' Key (p, g @ ''value'' @ r) = None"
    by (rule keyword_as_fail [OF assms(1)]) (simp_all add: white_char_def)
  moreover have "keyword_as ''value'' Value (p, g @ ''value'' @ r)
      = Some (Value, (Some (last ''value''), r))"
    by (rule keyword_as_gap [OF assms(1) _ _ assms(3,2)]) (simp_all add: white_char_def)
  ultimately show ?thesis by (simp add: Value ELEMENT_def MatchFirst_def)
qed

lemma ELEMENT_shape:
  assumes "ELEMENT (p, s) = Some (el, (p', s'))"
  shows "\<exists>g. whitespace g \<and> s = g @ element_keyword el @ s'
           \<and> next_is (\<lambda>c. \<not> ident_char c) s'
           \<and> p' = Some (last (element_keyword el)) \<and> (g = [] \<longrightarrow> prev_ok p)"
proof -
  from assms consider "keyword_as ''key'' Key (p, s) = Some (el, (p', s'))"
    | "keyword_as ''value'' Value (p, s) = Some (el, (p', s'))"
    by (auto simp: ELEMENT_def MatchFirst_def split: option.splits)
  then show ?thesis
    by cases (auto dest!: keyword_as_shape)
qed

lemma operator_ends_ident: "operator_ends op r \<Longrightarrow> next_is (\<lambda>c. \<not> ident_char c) r"
  by (cases r) simp_all

lemma operator_ends_longer:
  assumes "operator_ends op (CHR ''='' # r)" and "op = Lt \<or> op = Gt"
  shows "\<not> next_is (\<lambda>c. \<not> ident_char c) r"
  using assms by (cases r) auto

lemma OPERATOR_gap:
  assumes "whitespace g" and "g = [] \<longrightarrow> prev_ok p" and "operator_ends op r"
  shows "OPERATOR (p, g @ operator_keyword op @ r)
           = Some (op, (Some (last (operator_keyword op)), r))"
proof -
  note n = operator_ends_ident [OF assms(3)]
  note ok = keyword_as_gap [OF assms(1) _ _ n assms(2)]
  note no = keyword_as_fail [OF assms(1)]
  show ?thesis
  proof (cases op)
    case Le
    have "keyword_as ''<='' Le (p, g @ ''<='' @ r) = Some (Le, (Some (last ''<=''), r))"
      by (rule ok) (simp_all add: white_char_def)
    then show ?thesis by (simp add: Le OPERATOR_def MatchFirst_def)
  next
    case Ge
    have "keyword_as ''<='' Le (p, g @ ''>='' @ r) = None"
      by (rule no) (simp_all add: white_char_def)
    moreover have "keyword_as ''>='' Ge (p, g @ ''>='' @ r) = Some (Ge, (Some (last ''>=''), r))"
      by (rule ok) (simp_all add: white_char_def)
    ultimately show ?thesis by (simp add: Ge OPERATOR_def MatchFirst_def)
  next
    case Lt
    have "keyword_as ''<='' Le (p, g @ ''<'' @ r) = None"
    proof (rule no)
      show "next_is (\<lambda>c. \<not> white_char c) (''<'' @ r)" by (simp add: white_char_def)
      show "take (length ''<='') (''<'' @ r) \<noteq> ''<=''
          \<or> \<not> next_is (\<lambda>c. \<not> ident_char c) (drop (length ''<='') (''<'' @ r))"
      proof (cases r)
        case Nil
        then show ?thesis by simp
      next
        case (Cons c cs)
        show ?thesis
        proof (cases "c = CHR ''=''")
          case True
          with assms(3) Cons have "operator_ends op (CHR ''='' # cs)" by simp
          from operator_ends_longer [OF this] Lt
          have "\<not> next_is (\<lambda>c. \<not> ident_char c) cs" by simp
          with Cons show ?thesis by simp
        next
          case False
          with Cons show ?thesis by simp
        qed
      qed
    qed
    moreover have "keyword_as ''>='' Ge (p, g @ ''<'' @ r) = None"
      by (rule no) (simp_all add: white_char_def)
    moreover have "keyword_as ''<'' Lt (p, g @ ''<'' @ r) = Some (Lt, (Some (last ''<''), r))"
      by (rule ok) (simp_all add: white_char_def)
    ultimately show ?thesis by (simp add: Lt OPERATOR_def MatchFirst_def)
  next
    case Gt
    have "keyword_as ''<='' Le (p, g @ ''>'' @ r) = None"
      by (rule no) (simp_all add: white_char_def)
    moreover have "keyword_as ''>='' Ge (p, g @ ''>'' @ r) = None"
    proof (rule no)
      show "next_is (\<lambda>c. \<not> white_char c) (''>'' @ r)" by (simp add: white_char_def)
      show "take (length ''>='') (''>'' @ r) \<noteq> ''>=''
          \<or> \<not> next_is (\<lambda>c. \<not> ident_char c) (drop (length ''>='') (''>'' @ r))"
      proof (cases r)
        case Nil
        then show ?thesis by simp
      next
        case (Cons c cs)
        show ?thesis
        proof (cases "c = CHR ''=''")
          case True
          with assms(3) Cons have "operator_ends op (CHR ''='' # cs)" by simp
          from operator_ends_longer [OF this] Gt
          have "\<not> next_is (\<lambda>c. \<not> ident_char c) cs" by simp
          with Cons show ?thesis by simp
        next
          case False
          with Cons show ?thesis by simp
        qed
      qed
    qed
    moreover have "keyword_as ''<'' Lt (p, g @ ''>'' @ r) = None"
      by (rule no) (simp_all add: white_char_def)
    moreover have "keyword_as ''>'' Gt (p, g @ ''>'' @ r) = Some (Gt, (Some (last ''>''), r))"
      by (rule ok) (simp_all add: white_char_def)
    ultimately show ?thesis by (simp add: Gt OPERATOR_def MatchFirst_def)
  next
    case Eq
    have "keyword_as ''<='' Le (p, g @ ''='' @ r) = None"
      by (rule no) (simp_all add: white_char_def)
    moreover have "keyword_as ''>='' Ge (p, g @ ''='' @ r) = None"
      by (rule no) (simp_all add: white_char_def)
    moreover have "keyword_as ''<'' Lt (p, g @ ''='' @ r) = None"
      by (rule no) (simp_all add: white_char_def)
    moreover have "keyword_as ''>'' Gt (p, g @ ''='' @ r) = None"
      by (rule no) (simp_all add: white_char_def)
    moreover have "keyword_as ''='' Eq (p, g @ ''='' @ r) = Some (Eq, (Some (last ''=''), r))"
      by (rule ok) (simp_all add: white_char_def)
    ultimately show ?thesis by (simp add: Eq OPERATOR_def MatchFirst_def)
  next
    case Contains
    have "keyword_as ''<='' Le (p, g @ ''contains'' @ r) = None"
      by (rule no) (simp_all add: white_char_def)
    moreover have "keyword_as ''>='' Ge (p, g @ ''contains'' @ r) = None"
      by (rule no) (simp_all add: white_char_def)
    moreover have "keyword_as ''<'' Lt (p, g @ ''contains'' @ r) = None"
      by (rule no) (simp_all add: white_char_def)
    moreover have "keyword_as ''>'' Gt (p, g @ ''contains'' @ r) = None"
      by (rule no) (simp_all add: white_char_def)
    moreover have "keyword_as ''='' Eq (p, g @ ''contains'' @ r) = None"
      by (rule no) (simp_all add: white_char_def)
    moreover have "keyword_as ''contains'' Contains (p, g @ ''contains'' @ r)
        = Some (Contains, (Some (last ''contains''), r))"
      by (rule ok) (simp_all add: white_char_def)
    ultimately show ?thesis by (simp add: Contains OPERATOR_def MatchFirst_def)
  qed
qed

lemma operator_ends_other:
  "op \<noteq> Lt \<Longrightarrow> op \<noteq> Gt \<Longrightarrow> operator_ends op r = next_is (\<lambda>c. \<not> ident_char c) r"
  by (cases r) simp_all

lemma not_next_is_not: "\<not> next_is (\<lambda>c. \<not> P c) cs \<Longrightarrow> cs \<noteq> [] \<and> next_is P cs"
  by (cases cs) simp_all

lemma longer_keyword_fails:
  assumes "Keyword [a] (p, s) = Some (t, (p', s'))" and "Keyword [a, CHR ''=''] (p, s) = None"
      and "op = Lt \<or> op = Gt"
  shows "operator_ends op s'"
proof -
  obtain q u where pre: "preParse (p, s) = (q, u)" by (cases "preParse (p, s)")
  with assms(1) have k: "take 1 u = [a]" and r: "s' = drop 1 u"
    and n: "next_is (\<lambda>c. \<not> ident_char c) s'" and q: "prev_ok q"
    by (auto simp: Keyword_unfold split: if_splits)
  from k r have u: "u = a # s'" by (cases u) simp_all
  from assms(2) pre q have no: "\<not> (take (Suc (Suc 0)) u = [a, CHR ''='']
      \<and> next_is (\<lambda>c. \<not> ident_char c) (drop (Suc (Suc 0)) u))"
    by (auto simp: Keyword_unfold split: if_splits)
  show ?thesis
  proof (cases s')
    case Nil
    then show ?thesis by simp
  next
    case (Cons c cs)
    with n have c: "\<not> ident_char c" by simp
    show ?thesis
    proof (cases "c = CHR ''=''")
      case True
      with u Cons no have "\<not> next_is (\<lambda>c. \<not> ident_char c) cs" by simp
      from not_next_is_not [OF this] c True Cons show ?thesis by simp
    next
      case False
      with c Cons show ?thesis by simp
    qed
  qed
qed

lemma keyword_as_None: "keyword_as kw x st = None \<Longrightarrow> Keyword kw st = None"
  by (auto simp: keyword_as_def split: option.splits)

lemma keyword_as_Some:
  "keyword_as kw x st = Some (y, st') \<Longrightarrow> Keyword kw st = Some (kw, st')"
  by (cases "preParse st")
     (auto simp: keyword_as_def Keyword_unfold split: option.splits if_splits)

lemma OPERATOR_shape:
  assumes "OPERATOR (p, s) = Some (op, (p', s'))"
  shows "\<exists>g. whitespace g \<and> s = g @ operator_keyword op @ s' \<and> operator_ends op s'
           \<and> p' = Some (last (operator_keyword op)) \<and> (g = [] \<longrightarrow> prev_ok p)"
proof -
  let ?st = "(p, s)" and ?st' = "(p', s')"
  from assms consider
      (le) "keyword_as ''<='' Le ?st = Some (op, ?st')"
    | (ge) "keyword_as ''>='' Ge ?st = Some (op, ?st')"
    | (lt) "keyword_as ''<='' Le ?st = None" "keyword_as ''<'' Lt ?st = Some (op, ?st')"
    | (gt) "keyword_as ''>='' Ge ?st = None" "keyword_as ''>'' Gt ?st = Some (op, ?st')"
    | (eq) "keyword_as ''='' Eq ?st = Some (op, ?st')"
    | (contains) "keyword_as ''contains'' Contains ?st = Some (op, ?st')"
    by (auto simp: OPERATOR_def MatchFirst_def split: option.splits)
  then show ?thesis
  proof cases
    case le
    from keyword_as_shape [OF this] show ?thesis by (auto simp: operator_ends_other)
  next
    case ge
    from keyword_as_shape [OF this] show ?thesis by (auto simp: operator_ends_other)
  next
    case lt
    from keyword_as_shape [OF lt(2)] have op: "op = Lt" by simp
    have "operator_ends op s'"
      by (rule longer_keyword_fails [OF keyword_as_Some [OF lt(2)] keyword_as_None [OF lt(1)]])
         (simp add: op)
    with keyword_as_shape [OF lt(2)] show ?thesis by auto
  next
    case gt
    from keyword_as_shape [OF gt(2)] have op: "op = Gt" by simp
    have "operator_ends op s'"
      by (rule longer_keyword_fails [OF keyword_as_Some [OF gt(2)] keyword_as_None [OF gt(1)]])
         (simp add: op)
    with keyword_as_shape [OF gt(2)] show ?thesis by auto
  next
    case eq
    from keyword_as_shape [OF this] show ?thesis by (auto simp: operator_ends_other)
  next
    case contains
    from keyword_as_shape [OF this] show ?thesis by (auto simp: operator_ends_other)
  qed
qed

section \<open>Lemmas about the parser: the operand\<close>

lemma whitespace_not_printable:
  "whitespace g \<Longrightarrow> g \<noteq> [] \<Longrightarrow> next_is (\<lambda>c. \<not> printables c) (g @ s)"
  by (cases g) (auto simp: whitespace_def dest: printables_not_white)

lemma whitespace_not_ident:
  "whitespace g \<Longrightarrow> g \<noteq> [] \<Longrightarrow> next_is (\<lambda>c. \<not> ident_char c) (g @ s)"
  by (cases g) (auto simp: whitespace_def dest: white_not_ident)

lemma whitespace_not_alphas:
  "whitespace g \<Longrightarrow> g \<noteq> [] \<Longrightarrow> next_is (\<lambda>c. \<not> alphas c) (g @ s)"
  by (cases g) (auto simp: whitespace_def dest: alphas_not_white)

lemma token_not_white: "token w \<Longrightarrow> \<not> white_char (hd w)"
  by (cases w) (auto simp: token_def dest: printables_not_white)

lemma operator_ends_touch:
  assumes "whitespace g4" and "g4 \<noteq> []" and "v \<noteq> []"
  shows "operator_ends op (v @ g4 @ t) = may_touch op v"
proof -
  from assms(3) obtain c cs where v: "v = c # cs" by (cases v) auto
  from assms(1,2) have w: "\<not> next_is ident_char (g4 @ t)"
    by (cases g4) (auto simp: whitespace_def dest: white_not_ident)
  show ?thesis
  proof (cases cs)
    case Nil
    with v w assms(2) show ?thesis by auto
  next
    case (Cons d ds)
    with v show ?thesis by simp
  qed
qed

lemma operator_ends_gap:
  assumes "whitespace g" and "g \<noteq> []"
  shows "operator_ends op (g @ t)"
proof -
  from assms obtain c cs where g: "g = c # cs" "white_char c"
    by (cases g) (auto simp: whitespace_def)
  then have "\<not> ident_char c" "c \<noteq> CHR ''=''"
    by (auto simp: white_not_ident white_char_def)
  with g show ?thesis by simp
qed

lemma VALUE_bare_gap:
  assumes "whitespace g" and "token lit" and "whitespace g4" and "g4 \<noteq> []"
  shows "VALUE (p, g @ lit @ g4 @ ''from'' @ r)
           = Some ((None, lit), (Some (last lit), g4 @ ''from'' @ r))"
proof -
  have w: "Word printables (p, g @ lit @ g4 @ ''from'' @ r)
             = Some (lit, (Some (last lit), g4 @ ''from'' @ r))"
    using assms(2)
    by (intro Word_gap [OF assms(1)] whitespace_not_printable [OF assms(3,4)])
       (simp_all add: token_def printables_not_white)
  have l: "Literal ''('' (Some (last lit), g4 @ ''from'' @ r) = None"
    by (rule Literal_fail [OF assms(3)]) (simp_all add: white_char_def)
  show ?thesis
    unfolding VALUE_def MatchFirst_def VALUE_typed_def VALUE_bare_def
    by (simp only: w l Option.bind.simps prod.case option.case)
qed

lemma VALUE_typed_gap:
  assumes "whitespace g" and "token ty" and "whitespace g4" and "g4 \<noteq> []"
      and "whitespace g5" and "token lit" and "whitespace g6" and "g6 \<noteq> []"
  shows "VALUE (p, g @ ty @ g4 @ ''('' @ g5 @ lit @ g6 @ '')'' @ r)
           = Some ((Some ty, lit), (Some CHR '')'', r))"
proof -
  have a: "Word printables (p, g @ ty @ g4 @ ''('' @ g5 @ lit @ g6 @ '')'' @ r)
             = Some (ty, (Some (last ty), g4 @ ''('' @ g5 @ lit @ g6 @ '')'' @ r))"
    using assms(2)
    by (intro Word_gap [OF assms(1)] whitespace_not_printable [OF assms(3,4)])
       (simp_all add: token_def printables_not_white)
  have b: "Literal ''('' (Some (last ty), g4 @ ''('' @ g5 @ lit @ g6 @ '')'' @ r)
             = Some (''('', (Some (last ''(''), g5 @ lit @ g6 @ '')'' @ r))"
    by (rule Literal_gap [OF assms(3)]) (simp_all add: white_char_def)
  have c: "Word printables (Some (last ''(''), g5 @ lit @ g6 @ '')'' @ r)
             = Some (lit, (Some (last lit), g6 @ '')'' @ r))"
    using assms(6)
    by (intro Word_gap [OF assms(5)] whitespace_not_printable [OF assms(7,8)])
       (simp_all add: token_def printables_not_white)
  have d: "Literal '')'' (Some (last lit), g6 @ '')'' @ r)
             = Some ('')'', (Some (last '')''), r))"
    by (rule Literal_gap [OF assms(7)]) (simp_all add: white_char_def)
  have e: "last '')'' = CHR '')''" by simp
  show ?thesis
    unfolding VALUE_def MatchFirst_def VALUE_typed_def
    by (simp only: a b c d e Option.bind.simps prod.case option.case)
qed

lemma printable_start_no_gap:
  assumes "next_is (\<lambda>c. \<not> printables c) s" and "s = g @ t" and "t \<noteq> []" and "printables (hd t)"
  shows "g \<noteq> []"
  using assms by (cases t) auto

lemma VALUE_shape:
  assumes "VALUE (p, s) = Some ((tyo, lit), (p', s'))"
  shows "(tyo = None \<and> token lit
          \<and> (\<exists>g. whitespace g \<and> s = g @ lit @ s' \<and> next_is (\<lambda>c. \<not> printables c) s'))
       \<or> (\<exists>ty g g4 g5 g6. tyo = Some ty \<and> token ty \<and> token lit
             \<and> whitespace g \<and> whitespace g4 \<and> whitespace g5 \<and> whitespace g6
             \<and> g4 \<noteq> [] \<and> g6 \<noteq> []
             \<and> s = g @ ty @ g4 @ ''('' @ g5 @ lit @ g6 @ '')'' @ s')"
proof -
  from assms consider
      (typed) "VALUE_typed (p, s) = Some ((tyo, lit), (p', s'))"
    | (bare) "VALUE_bare (p, s) = Some ((tyo, lit), (p', s'))"
    by (auto simp: VALUE_def MatchFirst_def split: option.splits)
  then show ?thesis
  proof cases
    case typed
    then obtain ty p1 s1 l p2 s2 p3 s3 r where
      a: "Word printables (p, s) = Some (ty, (p1, s1))"
      and b: "Literal ''('' (p1, s1) = Some (l, (p2, s2))"
      and c: "Word printables (p2, s2) = Some (lit, (p3, s3))"
      and d: "Literal '')'' (p3, s3) = Some (r, (p', s'))"
      and t: "tyo = Some ty"
      by (auto simp: VALUE_typed_def split: Option.bind_splits)
    from Word_shape [OF a] obtain g where
      1: "token ty" "whitespace g" "s = g @ ty @ s1" "next_is (\<lambda>c. \<not> printables c) s1"
      by (auto simp: token_def)
    from Literal_shape [OF b] obtain g4 where
      2: "whitespace g4" "s1 = g4 @ ''('' @ s2"
      by blast
    from Word_shape [OF c] obtain g5 where
      3: "token lit" "whitespace g5" "s2 = g5 @ lit @ s3" "next_is (\<lambda>c. \<not> printables c) s3"
      by (auto simp: token_def)
    from Literal_shape [OF d] obtain g6 where
      4: "whitespace g6" "s3 = g6 @ '')'' @ s'"
      by blast
    have g4: "g4 \<noteq> []"
      by (rule printable_start_no_gap [OF 1(4) 2(2)]) (simp_all add: printables_def)
    have g6: "g6 \<noteq> []"
      by (rule printable_start_no_gap [OF 3(4) 4(2)]) (simp_all add: printables_def)
    from 1(3) 2(2) 3(3) 4(2)
    have "s = g @ ty @ g4 @ ''('' @ g5 @ lit @ g6 @ '')'' @ s'" by simp
    with t 1(1,2) 2(1) 3(1,2) 4(1) g4 g6 show ?thesis by blast
  next
    case bare
    then have a: "Word printables (p, s) = Some (lit, (p', s'))" and t: "tyo = None"
      by (auto simp: VALUE_bare_def split: Option.bind_splits)
    from Word_shape [OF a] t show ?thesis by (auto simp: token_def)
  qed
qed

section \<open>Lemmas about the parser: every sentence is accepted\<close>

lemma operator_ends_value:
  assumes "whitespace g3" and "g3 \<noteq> [] \<or> may_touch op v" and "v \<noteq> []"
      and "whitespace g4" and "g4 \<noteq> []"
  shows "operator_ends op (g3 @ v @ g4 @ t)"
proof (cases "g3 = []")
  case True
  with assms(2) operator_ends_touch [OF assms(4,5,3), of op t] show ?thesis by simp
next
  case False
  with operator_ends_gap [OF assms(1)] show ?thesis by simp
qed

lemma SYNTAX_QUERY_bare_gap:
  assumes "whitespace g0" and "whitespace g1" and "whitespace g2" and "whitespace g3"
      and "whitespace g4" and "whitespace g5"
      and "g1 \<noteq> []" and "g2 \<noteq> []" and "g3 \<noteq> [] \<or> may_touch op lit" and "g4 \<noteq> []"
      and "token lit" and "alphabetic c" and "next_is (\<lambda>c. \<not> alphas c) rest"
  shows "SYNTAX_QUERY (None, g0 @ action_keyword act @ g1 @ element_keyword el @ g2 @
           operator_keyword op @ g3 @ lit @ g4 @ ''from'' @ g5 @ c @ rest)
         = Some (ResultsQuery act el op None lit c, (Some (last c), rest))"
proof -
  from assms(11) have lit: "lit \<noteq> []" by (simp add: token_def)
  have a: "ACTION_QUERY (None, g0 @ action_keyword act @ g1 @ element_keyword el @ g2 @
             operator_keyword op @ g3 @ lit @ g4 @ ''from'' @ g5 @ c @ rest)
           = Some (act, (Some (last (action_keyword act)), g1 @ element_keyword el @ g2 @
               operator_keyword op @ g3 @ lit @ g4 @ ''from'' @ g5 @ c @ rest))"
    by (rule ACTION_QUERY_gap [OF assms(1) _ whitespace_not_ident [OF assms(2,7)]]) simp
  have b: "ELEMENT (Some (last (action_keyword act)), g1 @ element_keyword el @ g2 @
             operator_keyword op @ g3 @ lit @ g4 @ ''from'' @ g5 @ c @ rest)
           = Some (el, (Some (last (element_keyword el)), g2 @
               operator_keyword op @ g3 @ lit @ g4 @ ''from'' @ g5 @ c @ rest))"
    by (rule ELEMENT_gap [OF assms(2) _ whitespace_not_ident [OF assms(3,8)]])
       (simp add: assms(7))
  have c: "OPERATOR (Some (last (element_keyword el)), g2 @
             operator_keyword op @ g3 @ lit @ g4 @ ''from'' @ g5 @ c @ rest)
           = Some (op, (Some (last (operator_keyword op)),
               g3 @ lit @ g4 @ ''from'' @ g5 @ c @ rest))"
    by (rule OPERATOR_gap [OF assms(3) _ operator_ends_value [OF assms(4,9) lit assms(5,10)]])
       (simp add: assms(8))
  have d: "VALUE (Some (last (operator_keyword op)), g3 @ lit @ g4 @ ''from'' @ g5 @ c @ rest)
           = Some ((None, lit), (Some (last lit), g4 @ ''from'' @ g5 @ c @ rest))"
    by (rule VALUE_bare_gap [OF assms(4,11,5,10)])
  have e: "Literal ''from'' (Some (last lit), g4 @ ''from'' @ g5 @ c @ rest)
           = Some (''from'', (Some (last ''from''), g5 @ c @ rest))"
    by (rule Literal_gap [OF assms(5)]) (simp_all add: white_char_def)
  have f: "Word alphas (Some (last ''from''), g5 @ c @ rest) = Some (c, (Some (last c), rest))"
    using assms(12)
    by (intro Word_gap [OF assms(6)] assms(13)) (simp_all add: alphabetic_def alphas_not_white)
  show ?thesis
    unfolding SYNTAX_QUERY_def
    by (simp only: a b c d e f Option.bind.simps prod.case)
qed

lemma SYNTAX_QUERY_typed_gap:
  assumes "whitespace g0" and "whitespace g1" and "whitespace g2" and "whitespace g3"
      and "whitespace g4" and "whitespace g5" and "whitespace g6" and "whitespace g7"
      and "whitespace g8"
      and "g1 \<noteq> []" and "g2 \<noteq> []" and "g3 \<noteq> [] \<or> may_touch op ty" and "g4 \<noteq> []"
      and "g6 \<noteq> []"
      and "token ty" and "token lit" and "alphabetic c" and "next_is (\<lambda>c. \<not> alphas c) rest"
  shows "SYNTAX_QUERY (None, g0 @ action_keyword act @ g1 @ element_keyword el @ g2 @
           operator_keyword op @ g3 @ ty @ g4 @ ''('' @ g5 @ lit @ g6 @ '')'' @ g7 @ ''from'' @
           g8 @ c @ rest)
         = Some (ResultsQuery act el op (Some ty) lit c, (Some (last c), rest))"
proof -
  from assms(15) have ty: "ty \<noteq> []" by (simp add: token_def)
  have a: "ACTION_QUERY (None, g0 @ action_keyword act @ g1 @ element_keyword el @ g2 @
             operator_keyword op @ g3 @ ty @ g4 @ ''('' @ g5 @ lit @ g6 @ '')'' @ g7 @ ''from'' @
             g8 @ c @ rest)
           = Some (act, (Some (last (action_keyword act)), g1 @ element_keyword el @ g2 @
               operator_keyword op @ g3 @ ty @ g4 @ ''('' @ g5 @ lit @ g6 @ '')'' @ g7 @
               ''from'' @ g8 @ c @ rest))"
    by (rule ACTION_QUERY_gap [OF assms(1) _ whitespace_not_ident [OF assms(2,10)]]) simp
  have b: "ELEMENT (Some (last (action_keyword act)), g1 @ element_keyword el @ g2 @
             operator_keyword op @ g3 @ ty @ g4 @ ''('' @ g5 @ lit @ g6 @ '')'' @ g7 @
             ''from'' @ g8 @ c @ rest)
           = Some (el, (Some (last (element_keyword el)), g2 @
               operator_keyword op @ g3 @ ty @ g4 @ ''('' @ g5 @ lit @ g6 @ '')'' @ g7 @
               ''from'' @ g8 @ c @ rest))"
    by (rule ELEMENT_gap [OF assms(2) _ whitespace_not_ident [OF assms(3,11)]])
       (simp add: assms(10))
  have c: "OPERATOR (Some (last (element_keyword el)), g2 @
             operator_keyword op @ g3 @ ty @ g4 @ ''('' @ g5 @ lit @ g6 @ '')'' @ g7 @
             ''from'' @ g8 @ c @ rest)
           = Some (op, (Some (last (operator_keyword op)),
               g3 @ ty @ g4 @ ''('' @ g5 @ lit @ g6 @ '')'' @ g7 @ ''from'' @ g8 @ c @ rest))"
    by (rule OPERATOR_gap [OF assms(3) _ operator_ends_value [OF assms(4,12) ty assms(5,13)]])
       (simp add: assms(11))
  have d: "VALUE (Some (last (operator_keyword op)),
             g3 @ ty @ g4 @ ''('' @ g5 @ lit @ g6 @ '')'' @ g7 @ ''from'' @ g8 @ c @ rest)
           = Some ((Some ty, lit), (Some CHR '')'', g7 @ ''from'' @ g8 @ c @ rest))"
    by (rule VALUE_typed_gap [OF assms(4,15,5,13,6,16,7,14)])
  have e: "Literal ''from'' (Some CHR '')'', g7 @ ''from'' @ g8 @ c @ rest)
           = Some (''from'', (Some (last ''from''), g8 @ c @ rest))"
    by (rule Literal_gap [OF assms(8)]) (simp_all add: white_char_def)
  have f: "Word alphas (Some (last ''from''), g8 @ c @ rest) = Some (c, (Some (last c), rest))"
    using assms(17)
    by (intro Word_gap [OF assms(9)] assms(18)) (simp_all add: alphabetic_def alphas_not_white)
  show ?thesis
    unfolding SYNTAX_QUERY_def
    by (simp only: a b c d e f Option.bind.simps prod.case)
qed

lemma SYNTAX_JOIN_gap:
  assumes "whitespace g0" and "whitespace g1" and "whitespace g2" and "whitespace g3"
      and "g1 \<noteq> []" and "g2 \<noteq> []"
      and "alphabetic c1" and "alphabetic c2" and "next_is (\<lambda>c. \<not> alphas c) rest"
  shows "SYNTAX_JOIN (None, g0 @ ''join'' @ g1 @ c1 @ g2 @ ''with'' @ g3 @ c2 @ rest)
         = Some (ResultsJoin c1 c2, (Some (last c2), rest))"
proof -
  have a: "Keyword ''join'' (None, g0 @ ''join'' @ g1 @ c1 @ g2 @ ''with'' @ g3 @ c2 @ rest)
           = Some (''join'', (Some (last ''join''), g1 @ c1 @ g2 @ ''with'' @ g3 @ c2 @ rest))"
    by (rule Keyword_gap [OF assms(1) _ _ whitespace_not_ident [OF assms(2,5)]])
       (simp_all add: white_char_def)
  have b: "Word alphas (Some (last ''join''), g1 @ c1 @ g2 @ ''with'' @ g3 @ c2 @ rest)
           = Some (c1, (Some (last c1), g2 @ ''with'' @ g3 @ c2 @ rest))"
    using assms(7)
    by (intro Word_gap [OF assms(2)] whitespace_not_alphas [OF assms(3,6)])
       (simp_all add: alphabetic_def alphas_not_white)
  have c: "Literal ''with'' (Some (last c1), g2 @ ''with'' @ g3 @ c2 @ rest)
           = Some (''with'', (Some (last ''with''), g3 @ c2 @ rest))"
    by (rule Literal_gap [OF assms(3)]) (simp_all add: white_char_def)
  have d: "Word alphas (Some (last ''with''), g3 @ c2 @ rest) = Some (c2, (Some (last c2), rest))"
    using assms(8)
    by (intro Word_gap [OF assms(4)] assms(9)) (simp_all add: alphabetic_def alphas_not_white)
  show ?thesis
    unfolding SYNTAX_JOIN_def
    by (simp only: a b c d Option.bind.simps prod.case)
qed

lemma SYNTAX_JOIN_not_query:
  assumes "whitespace g0"
  shows "SYNTAX_JOIN (None, g0 @ action_keyword act @ r) = None"
proof -
  have "Keyword ''join'' (None, g0 @ action_keyword act @ r) = None"
    by (rule Keyword_fail [OF assms]) (cases act; simp add: white_char_def)+
  then show ?thesis by (simp add: SYNTAX_JOIN_def)
qed

end
